theory Spec2Isabelle
  imports Main "HOL-Library.Word"
begin

unbundle bit_operations_syntax

chapter \<open>librist: the logging unit, the receiver tool and the public interface\<close>

text \<open>
  A shallow embedding of \<^verbatim>\<open>src/log.c\<close> (the log level, the statistics descriptor and
  socket, and \<^verbatim>\<open>msg\<close>), of \<^verbatim>\<open>tools/ristreceiver.c\<close> (the RTP header, the data callback
  \<^verbatim>\<open>cb_recv\<close>, the statistics callback \<^verbatim>\<open>cb_stats\<close> and the set-up part of \<^verbatim>\<open>main\<close>) and of
  the interface declared in \<^verbatim>\<open>librist.h\<close>.

  C's \<^verbatim>\<open>int\<close> is a 32-bit word read in two's complement (\<open><s\<close>, \<open>sint\<close>); the fixed-width
  unsigned types are words of their width, so \<open>+\<close> wraps as the C operators do.
\<close>

type_synonym c_int = "32 word"
type_synonym u8 = "8 word"
type_synonym u16 = "16 word"
type_synonym u32 = "32 word"
type_synonym u64 = "64 word"

section \<open>\<^verbatim>\<open>librist.h\<close>: the enumerations\<close>

text \<open>
  \<^verbatim>\<open>enum rist_log_level\<close> and \<^verbatim>\<open>enum rist_profile\<close>. The variables that hold them are
  assigned from \<^verbatim>\<open>int\<close>s (\<^verbatim>\<open>set_loglevel(int)\<close>, \<^verbatim>\<open>profile = atoi(optarg)\<close>), so the
  enumerators are the \<^verbatim>\<open>int\<close> constants of the header.
\<close>

definition RIST_LOG_QUIET :: c_int where "RIST_LOG_QUIET = - 1"
definition RIST_LOG_INFO :: c_int where "RIST_LOG_INFO = 0"
definition RIST_LOG_ERROR :: c_int where "RIST_LOG_ERROR = 1"
definition RIST_LOG_WARN :: c_int where "RIST_LOG_WARN = 2"
definition RIST_LOG_DEBUG :: c_int where "RIST_LOG_DEBUG = 3"
definition RIST_LOG_SIMULATE :: c_int where "RIST_LOG_SIMULATE = 4"

definition RIST_PROFILE_SIMPLE :: c_int where "RIST_PROFILE_SIMPLE = 0"
definition RIST_PROFILE_MAIN :: c_int where "RIST_PROFILE_MAIN = 1"
definition RIST_PROFILE_ADVANCED :: c_int where "RIST_PROFILE_ADVANCED = 2"

section \<open>\<^verbatim>\<open>printf\<close> conversions\<close>

text \<open>
  The conversions the format strings of the sources use: \<^verbatim>\<open>%d\<close>, \<^verbatim>\<open>%ld\<close> and the
  \<^verbatim>\<open>PRIu\<close> macros print a decimal numeral, \<^verbatim>\<open>%6.6d\<close> pads the digits with zeros
  to six.
\<close>

definition digit_char :: "nat \<Rightarrow> char" where
  "digit_char d = ''0123456789'' ! (d mod 10)"

function show_nat :: "nat \<Rightarrow> string" where
  "show_nat n =
     (if n < 10 then [digit_char n] else show_nat (n div 10) @ [digit_char (n mod 10)])"
  by pat_completeness auto
termination
  by (relation "measure (\<lambda>n. n)") auto

declare show_nat.simps [simp del]

definition show_int :: "int \<Rightarrow> string" where
  "show_int i = (if i < 0 then CHR ''-'' # show_nat (nat (- i)) else show_nat (nat i))"

definition show_int_prec :: "nat \<Rightarrow> int \<Rightarrow> string" where
  "show_int_prec p i =
     (let ds = show_nat (nat \<bar>i\<bar>); padded = replicate (p - length ds) CHR ''0'' @ ds
      in if i < 0 then CHR ''-'' # padded else padded)"

section \<open>\<^verbatim>\<open>src/log.c\<close>\<close>

text \<open>
  The three file-scope variables of the unit. Their initial values depend on the
  platform the unit is compiled for: \<^verbatim>\<open>STDERR_FILENO\<close> (2) where \<^verbatim>\<open>__unix__\<close> is defined,
  \<open>-1\<close> where \<^verbatim>\<open>_WIN32\<close> is, 2 elsewhere.
\<close>

datatype platform = Unix | Win32 | Other_platform

record log_state =
  loglevel :: c_int
  stats_fd :: c_int
  stats_socket :: c_int

definition STDERR_FILENO :: c_int where "STDERR_FILENO = 2"

definition log_init :: "platform \<Rightarrow> log_state" where
  "log_init pf =
     \<lparr>loglevel = RIST_LOG_WARN,
      stats_fd = (case pf of Unix \<Rightarrow> STDERR_FILENO | Win32 \<Rightarrow> - 1 | Other_platform \<Rightarrow> 2),
      stats_socket = 0\<rparr>"

text \<open>
  What the unit does to the outside: a line printed on \<^verbatim>\<open>stderr\<close>, bytes written to a
  descriptor with \<^verbatim>\<open>write\<close>, a datagram sent with \<^verbatim>\<open>udp_Write\<close>.
\<close>

datatype log_event =
  Fprintf_stderr string
| Write c_int string
| Udp_Write c_int string

definition set_loglevel :: "c_int \<Rightarrow> log_state \<Rightarrow> log_state" where
  "set_loglevel level s = s\<lparr>loglevel := level\<rparr>"

text \<open>\<^verbatim>\<open>rist_set_stats_fd\<close>: the return value, what is printed, the new state.\<close>

definition rist_set_stats_fd :: "c_int \<Rightarrow> log_state \<Rightarrow> c_int \<times> log_event list \<times> log_state" where
  "rist_set_stats_fd fd s =
     (if - 1 <s fd
      then (0, [Fprintf_stderr (''Statistic custom file handle set, #'' @ show_int (sint fd) @ [CHR 0x0A])],
            s\<lparr>stats_fd := fd\<rparr>)
      else (0, [], s))"

text \<open>
  \<^verbatim>\<open>rist_set_stats_socket\<close>. \<^verbatim>\<open>udp_Connect\<close> is declared in \<^verbatim>\<open>network.h\<close>; the descriptor
  it returns when it is called is the parameter \<open>sock\<close>.
\<close>

definition rist_set_stats_socket ::
    "c_int \<Rightarrow> c_int \<Rightarrow> log_state \<Rightarrow> c_int \<times> log_event list \<times> log_state" where
  "rist_set_stats_socket port sock s =
     (if port = 0
      then (- 1, [Fprintf_stderr (''Invalid Statistic socket port '' @ show_int (sint port)
                     @ '' requested'' @ [CHR 0x0A])], s)
      else if stats_socket s = 0
      then (0, [Fprintf_stderr (''Statistic socket created on port '' @ show_int (sint port)
                     @ '' (#'' @ show_int (sint sock) @ '')'' @ [CHR 0x0A])],
            s\<lparr>stats_socket := sock\<rparr>)
      else (0, [Fprintf_stderr (''Sorry, statistic socket was already created on port ''
                     @ show_int (sint port) @ '' (#'' @ show_int (sint (stats_socket s)) @ '')''
                     @ [CHR 0x0A])], s))"

text \<open>
  \<^verbatim>\<open>msg\<close>. The time \<^verbatim>\<open>gettimeofday\<close> returns and the text \<^verbatim>\<open>vasprintf\<close> renders from the
  format and its arguments are parameters, and so is \<^verbatim>\<open>_fileno(stderr)\<close>; both
  allocations are taken to succeed (the source does not test them). \<^verbatim>\<open>(int)tv.tv_sec\<close>
  keeps the low 32 bits; the contexts are \<^verbatim>\<open>intptr_t\<close>, 64 bits wide, printed by
  \<^verbatim>\<open>%ld\<close>. \<^verbatim>\<open>write\<close> gets \<^verbatim>\<open>udplen + 1\<close> bytes, the text and its terminating zero;
  \<^verbatim>\<open>udp_Write\<close> gets the text alone.
\<close>

record timeval =
  tv_sec :: u64
  tv_usec :: u64

definition msg_text :: "timeval \<Rightarrow> u64 \<Rightarrow> u64 \<Rightarrow> c_int \<Rightarrow> string \<Rightarrow> string" where
  "msg_text tv server_ctx client_ctx level str_content =
     show_int (sint (ucast (tv_sec tv) :: c_int)) @ ''.''
       @ show_int_prec 6 (sint (ucast (tv_usec tv) :: c_int)) @ ''|''
       @ show_int (sint server_ctx) @ ''.'' @ show_int (sint client_ctx) @ ''|''
       @ show_int (sint level) @ ''|'' @ str_content"

definition msg ::
    "platform \<Rightarrow> c_int \<Rightarrow> timeval \<Rightarrow> u64 \<Rightarrow> u64 \<Rightarrow> c_int \<Rightarrow> string \<Rightarrow> log_state
       \<Rightarrow> log_event list \<times> log_state" where
  "msg pf fileno_stderr tv server_ctx client_ctx level str_content s =
     (let s1 = (if pf = Win32 \<and> stats_fd s = - 1 then s\<lparr>stats_fd := fileno_stderr\<rparr> else s)
      in if loglevel s1 <s level then ([], s1)
         else
           let str_udp = msg_text tv server_ctx client_ctx level str_content
           in (Write (stats_fd s1) (str_udp @ [CHR 0x00])
                 # (if 0 <s stats_socket s1 then [Udp_Write (stats_socket s1) str_udp] else []),
               s1))"

text \<open>
  Where an event of the unit goes: the descriptor \<^verbatim>\<open>write\<close> is given, the socket
  \<^verbatim>\<open>udp_Write\<close> is given; \<^verbatim>\<open>stderr\<close> lines have neither.
\<close>

fun event_target :: "log_event \<Rightarrow> c_int option" where
  "event_target (Fprintf_stderr _) = None"
| "event_target (Write fd _) = Some fd"
| "event_target (Udp_Write sk _) = Some sk"

text \<open>
  A client that calls \<^verbatim>\<open>rist_set_stats_socket\<close> several times: each call with its port
  and with the descriptor \<^verbatim>\<open>udp_Connect\<close> would return to it.
\<close>

fun stats_socket_calls :: "(c_int \<times> c_int) list \<Rightarrow> log_state \<Rightarrow> log_state" where
  "stats_socket_calls [] s = s"
| "stats_socket_calls ((port, sock) # cs) s =
     stats_socket_calls cs (snd (snd (rist_set_stats_socket port sock s)))"

section \<open>\<^verbatim>\<open>tools/ristreceiver.c\<close>: the RTP header\<close>

text \<open>
  \<^verbatim>\<open>struct rist_data_block\<close> of \<^verbatim>\<open>librist.h\<close>. \<open>payload\<close> is the buffer of
  \<^verbatim>\<open>payload_len\<close> bytes the block points to, so \<^verbatim>\<open>payload_len\<close> is its length; the
  \<^verbatim>\<open>peer\<close> pointer, which the tool never reads, is left out.
\<close>

record rist_data_block =
  payload :: "u8 list"
  ts_ntp :: u64
  virt_src_port :: u16
  virt_dst_port :: u16
  flow_id :: u32
  seq :: u64
  flags :: u32

text \<open>
  \<^verbatim>\<open>risttools_rtp_set_hdr\<close> writes twelve bytes into the buffer \<open>p_rtp\<close>. A \<^verbatim>\<open>uint16_t\<close>
  is promoted before \<^verbatim>\<open>>> 8\<close>, and every value is cut to a byte by the assignment.
\<close>

definition risttools_rtp_set_hdr :: "u8 list \<Rightarrow> u8 \<Rightarrow> u16 \<Rightarrow> u32 \<Rightarrow> u32 \<Rightarrow> u8 list" where
  "risttools_rtp_set_hdr p_rtp i_type i_seqnum i_timestamp i_ssrc =
     p_rtp[0 := 0x80,
           1 := i_type AND 0x7f,
           2 := ucast (drop_bit 8 i_seqnum),
           3 := ucast (i_seqnum AND 0xff),
           4 := ucast (drop_bit 24 i_timestamp AND 0xff),
           5 := ucast (drop_bit 16 i_timestamp AND 0xff),
           6 := ucast (drop_bit 8 i_timestamp AND 0xff),
           7 := ucast (i_timestamp AND 0xff),
           8 := ucast (drop_bit 24 i_ssrc AND 0xff),
           9 := ucast (drop_bit 16 i_ssrc AND 0xff),
           10 := ucast (drop_bit 8 i_ssrc AND 0xff),
           11 := ucast (i_ssrc AND 0xff)]"

definition risttools_convertNTPtoRTP :: "u64 \<Rightarrow> u32" where
  "risttools_convertNTPtoRTP i_ntp = ucast (drop_bit 32 (i_ntp * 90000))"

text \<open>Reading a header back: the fields of the first byte, and big-endian numbers.\<close>

definition rtp_version :: "u8 \<Rightarrow> u8" where "rtp_version b0 = drop_bit 6 b0"
definition rtp_padding :: "u8 \<Rightarrow> bool" where "rtp_padding b0 = bit b0 5"
definition rtp_extension :: "u8 \<Rightarrow> bool" where "rtp_extension b0 = bit b0 4"
definition rtp_csrc_count :: "u8 \<Rightarrow> u8" where "rtp_csrc_count b0 = b0 AND 0x0f"
definition rtp_payload_type :: "u8 \<Rightarrow> u8" where "rtp_payload_type b1 = b1 AND 0x7f"
definition rtp_marker :: "u8 \<Rightarrow> bool" where "rtp_marker b1 = bit b1 7"

definition be16 :: "u8 list \<Rightarrow> u16" where
  "be16 bs = push_bit 8 (ucast (bs ! 0)) OR ucast (bs ! 1)"

definition be32 :: "u8 list \<Rightarrow> u32" where
  "be32 bs = push_bit 24 (ucast (bs ! 0)) OR push_bit 16 (ucast (bs ! 1))
               OR push_bit 8 (ucast (bs ! 2)) OR ucast (bs ! 3)"

section \<open>\<^verbatim>\<open>tools/ristreceiver.c\<close>: \<^verbatim>\<open>cb_recv\<close>\<close>

text \<open>
  \<^verbatim>\<open>struct rist_udp_config\<close> is declared in a header outside these sources; the four
  fields \<^verbatim>\<open>cb_recv\<close> reads are kept. \<open>stream_id\<close> is its value as the \<^verbatim>\<open>uint16_t\<close> the
  callback copies it to; \<open>rtp\<close> and \<open>rtp_sequence\<close> are tested against 0; \<open>rtp_ptype\<close> is
  tested against 0 and then cut to the \<^verbatim>\<open>uint8_t ptype\<close>.
\<close>

record rist_udp_config =
  stream_id :: u16
  rtp :: c_int
  rtp_sequence :: c_int
  rtp_ptype :: c_int

definition MAX_OUTPUT_COUNT :: nat where "MAX_OUTPUT_COUNT = 10"

text \<open>
  \<^verbatim>\<open>struct rist_callback_object\<close>: three arrays of \<^verbatim>\<open>MAX_OUTPUT_COUNT\<close> elements; a null
  \<^verbatim>\<open>udp_config[i]\<close> is \<open>None\<close>.
\<close>

record rist_callback_object =
  mpeg :: "c_int list"
  udp_config :: "rist_udp_config option list"
  i_seqnum :: "u16 list"

definition callback_object_wf :: "rist_callback_object \<Rightarrow> bool" where
  "callback_object_wf co \<longleftrightarrow>
     length (mpeg co) = MAX_OUTPUT_COUNT \<and> length (udp_config co) = MAX_OUTPUT_COUNT
       \<and> length (i_seqnum co) = MAX_OUTPUT_COUNT"

text \<open>
  What the tool does to the outside: a datagram handed to \<^verbatim>\<open>udpsocket_send\<close>, a line
  handed to \<^verbatim>\<open>rist_log\<close> with its level.
\<close>

datatype tool_event =
  Udpsocket_send c_int "u8 list"
| Rist_log c_int string

definition ECONNREFUSED :: c_int where "ECONNREFUSED = 111"

text \<open>
  The body of the loop of \<^verbatim>\<open>cb_recv\<close> for the output \<open>i\<close>. The state of the loop is
  the callback object (its \<open>i_seqnum\<close> is advanced), the events so far and \<open>found\<close>.
  \<open>profile\<close> is the global of that name. \<open>udpsocket_send\<close> gives, for a socket and a
  datagram, the value the call returns and the \<^verbatim>\<open>errno\<close> it leaves. The twelve bytes
  \<^verbatim>\<open>malloc\<close> leaves in front of the copied payload start at 0 here;
  \<^verbatim>\<open>risttools_rtp_set_hdr\<close> overwrites all of them. \<^verbatim>\<open>malloc\<close> is taken to succeed (the
  source does not test it).
\<close>

definition cb_recv_output ::
    "c_int \<Rightarrow> (c_int \<Rightarrow> u8 list \<Rightarrow> c_int \<times> c_int) \<Rightarrow> rist_data_block \<Rightarrow> nat
       \<Rightarrow> rist_callback_object \<times> tool_event list \<times> bool
       \<Rightarrow> rist_callback_object \<times> tool_event list \<times> bool" where
  "cb_recv_output profile udpsocket_send b i st =
     (case st of (co, evs, found) \<Rightarrow>
        (case udp_config co ! i of
           None \<Rightarrow> (co, evs, found)
         | Some cfg \<Rightarrow>
             if profile = RIST_PROFILE_SIMPLE \<or> stream_id cfg = 0 \<or> stream_id cfg = virt_dst_port b
             then
               if 0 <s mpeg co ! i
               then
                 let (pl, co') =
                       (if rtp cfg \<noteq> 0
                        then
                          let sq = (if rtp_sequence cfg \<noteq> 0 then ucast (seq b) else i_seqnum co ! i);
                              co1 = (if rtp_sequence cfg \<noteq> 0 then co
                                     else co\<lparr>i_seqnum := (i_seqnum co)[i := i_seqnum co ! i + 1]\<rparr>);
                              i_timestamp = risttools_convertNTPtoRTP (ts_ntp b);
                              ptype = (if rtp_ptype cfg \<noteq> 0 then ucast (rtp_ptype cfg) else 0x21)
                          in (risttools_rtp_set_hdr (replicate 12 0 @ payload b) ptype sq i_timestamp
                                (flow_id b), co1)
                        else (payload b, co));
                     (ret, errno) = udpsocket_send (mpeg co ! i) pl
                 in (co',
                     evs @ Udpsocket_send (mpeg co ! i) pl
                       # (if ret \<le>s 0 \<and> errno \<noteq> ECONNREFUSED
                          then [Rist_log RIST_LOG_ERROR
                                  (''Error '' @ show_int (sint errno) @ '' sending udp packet to socket ''
                                     @ show_int (sint (mpeg co ! i)) @ [CHR 0x0A])]
                          else []),
                     True)
               else (co, evs, found)
             else (co, evs, found)))"

text \<open>
  \<^verbatim>\<open>cb_recv\<close>: the return value, the callback object after the call and the events.
  \<^verbatim>\<open>rist_receiver_data_block_free\<close> only releases memory.
\<close>

definition cb_recv ::
    "c_int \<Rightarrow> (c_int \<Rightarrow> u8 list \<Rightarrow> c_int \<times> c_int) \<Rightarrow> rist_callback_object \<Rightarrow> rist_data_block
       \<Rightarrow> c_int \<times> rist_callback_object \<times> tool_event list" where
  "cb_recv profile udpsocket_send co b =
     (case foldl (\<lambda>st i. cb_recv_output profile udpsocket_send b i st) (co, [], False)
             [0..<MAX_OUTPUT_COUNT] of
        (co', evs, found) \<Rightarrow>
          if \<not> found
          then (- 1, co',
                evs @ [Rist_log RIST_LOG_ERROR
                         (''Destination port mismatch, no output found for ''
                            @ show_nat (unat (virt_dst_port b)) @ [CHR 0x0A])])
          else (0, co', evs))"

text \<open>The datagrams among the events, each with its socket, in the order they were sent.\<close>

fun sends :: "tool_event list \<Rightarrow> (c_int \<times> u8 list) list" where
  "sends [] = []"
| "sends (Udpsocket_send fd dg # es) = (fd, dg) # sends es"
| "sends (Rist_log _ _ # es) = sends es"

text \<open>
  The outputs \<^verbatim>\<open>main\<close> has opened: it stores \<^verbatim>\<open>udp_config[i]\<close> only after
  \<^verbatim>\<open>udpsocket_open_connect\<close> has returned a positive socket into \<^verbatim>\<open>mpeg[i]\<close>.
\<close>

definition output_opened :: "rist_callback_object \<Rightarrow> nat \<Rightarrow> bool" where
  "output_opened co i \<longleftrightarrow> udp_config co ! i \<noteq> None \<and> 0 <s mpeg co ! i"

section \<open>\<^verbatim>\<open>tools/ristreceiver.c\<close>: the set-up of the context in \<^verbatim>\<open>main\<close>\<close>

text \<open>
  Lines 376 to 397 of \<^verbatim>\<open>main\<close>: the calls made on the new context, in order, and the
  status \<^verbatim>\<open>main\<close> exits with when one of them fails (\<open>None\<close>: it goes on). \<open>api\<close> gives
  the value each library call returns.
\<close>

datatype api_call =
  Rist_receiver_create c_int
| Rist_auth_handler_set
| Rist_oob_callback_set
| Rist_stats_callback_set c_int

definition main_setup :: "c_int \<Rightarrow> c_int \<Rightarrow> (api_call \<Rightarrow> c_int) \<Rightarrow> api_call list \<times> c_int option" where
  "main_setup profile statsinterval api =
     (if api (Rist_receiver_create profile) \<noteq> 0
      then ([Rist_receiver_create profile], Some 1)
      else if api Rist_auth_handler_set \<noteq> 0
      then ([Rist_receiver_create profile, Rist_auth_handler_set], Some 1)
      else
        let oob = (if profile \<noteq> RIST_PROFILE_SIMPLE then [Rist_oob_callback_set] else [])
        in if profile \<noteq> RIST_PROFILE_SIMPLE \<and> api Rist_oob_callback_set = - 1
           then ([Rist_receiver_create profile, Rist_auth_handler_set] @ oob, Some 1)
           else if api (Rist_stats_callback_set statsinterval) = - 1
           then ([Rist_receiver_create profile, Rist_auth_handler_set] @ oob
                   @ [Rist_stats_callback_set statsinterval], Some 1)
           else ([Rist_receiver_create profile, Rist_auth_handler_set] @ oob
                   @ [Rist_stats_callback_set statsinterval], None))"

text \<open>
  Two notions the properties of \<^verbatim>\<open>cb_recv\<close> are stated with. An output is selected for a
  block when it is opened and passes the test of line 135. The datagram an output
  \<open>cfg\<close> is sent for a block, given the value \<open>sqn\<close> of its \<open>i_seqnum\<close> counter, is the
  value of \<^verbatim>\<open>payload\<close> at line 156.
\<close>

definition output_selected :: "c_int \<Rightarrow> rist_callback_object \<Rightarrow> rist_data_block \<Rightarrow> nat \<Rightarrow> bool" where
  "output_selected profile co b i \<longleftrightarrow>
     output_opened co i \<and>
     (profile = RIST_PROFILE_SIMPLE \<or> stream_id (the (udp_config co ! i)) = 0
        \<or> stream_id (the (udp_config co ! i)) = virt_dst_port b)"

definition forwarded_datagram :: "rist_udp_config \<Rightarrow> u16 \<Rightarrow> rist_data_block \<Rightarrow> u8 list" where
  "forwarded_datagram cfg sqn b =
     (if rtp cfg \<noteq> 0
      then risttools_rtp_set_hdr (replicate 12 0 @ payload b)
             (if rtp_ptype cfg \<noteq> 0 then ucast (rtp_ptype cfg) else 0x21)
             (if rtp_sequence cfg \<noteq> 0 then ucast (seq b) else sqn)
             (risttools_convertNTPtoRTP (ts_ntp b)) (flow_id b)
      else payload b)"

text \<open>
  The layout of a datagram \<open>dg\<close> that carries the block \<open>b\<close> behind an RTP header, for
  the output \<open>cfg\<close> whose counter stands at \<open>sqn\<close>: twelve bytes, then the payload;
  version 2, no padding, no extension, no CSRC; the marker bit clear and a payload type
  of seven bits, the low seven bits of the configured type (\<open>0x21\<close> when none is
  configured); then the sequence number (the block's, cut to 16 bits, or the counter),
  the timestamp and the block's \<open>flow_id\<close> as SSRC, each in network byte order.
\<close>

definition rtp_header_ok :: "rist_udp_config \<Rightarrow> u16 \<Rightarrow> rist_data_block \<Rightarrow> u8 list \<Rightarrow> bool" where
  "rtp_header_ok cfg sqn b dg \<longleftrightarrow>
     length dg = 12 + length (payload b) \<and> drop 12 dg = payload b \<and>
     rtp_version (dg ! 0) = 2 \<and> \<not> rtp_padding (dg ! 0) \<and> \<not> rtp_extension (dg ! 0) \<and>
     rtp_csrc_count (dg ! 0) = 0 \<and>
     \<not> rtp_marker (dg ! 1) \<and> unat (rtp_payload_type (dg ! 1)) < 128 \<and>
     rtp_payload_type (dg ! 1) = (if rtp_ptype cfg \<noteq> 0 then ucast (rtp_ptype cfg) else 0x21) AND 0x7f \<and>
     be16 (take 2 (drop 2 dg)) = (if rtp_sequence cfg \<noteq> 0 then ucast (seq b) else sqn) \<and>
     be32 (take 4 (drop 4 dg)) = risttools_convertNTPtoRTP (ts_ntp b) \<and>
     be32 (take 4 (drop 8 dg)) = flow_id b"

text \<open>
  A callback object with two opened outputs, an RTP output on socket 5 that takes every
  block and a raw output on socket 6 for the virtual port 1971, and a block for the
  virtual port 1968 stamped one second into the NTP era.
\<close>

definition example_outputs :: rist_callback_object where
  "example_outputs =
     \<lparr>mpeg = [5, 6, 0, 0, 0, 0, 0, 0, 0, 0],
      udp_config =
        [Some \<lparr>stream_id = 0, rtp = 1, rtp_sequence = 1, rtp_ptype = 0\<rparr>,
         Some \<lparr>stream_id = 1971, rtp = 0, rtp_sequence = 0, rtp_ptype = 0\<rparr>,
         None, None, None, None, None, None, None, None],
      i_seqnum = [0, 0, 0, 0, 0, 0, 0, 0, 0, 0]\<rparr>"

definition example_block :: rist_data_block where
  "example_block =
     \<lparr>payload = [0x47, 0x01, 0x02], ts_ntp = 0x100000000, virt_src_port = 0, virt_dst_port = 1968,
      flow_id = 0x01020304, seq = 0x1234, flags = 0\<rparr>"

section \<open>\<^verbatim>\<open>tools/ristreceiver.c\<close>: \<^verbatim>\<open>cb_stats\<close>\<close>

text \<open>
  \<^verbatim>\<open>struct rist_stats\<close> is declared in a header outside these sources; the fields
  \<^verbatim>\<open>cb_stats\<close> reads are kept: \<^verbatim>\<open>stats_json\<close>, \<^verbatim>\<open>stats_type\<close> and, of
  \<^verbatim>\<open>stats.receiver_flow\<close>, \<^verbatim>\<open>flow_id\<close>, \<^verbatim>\<open>received\<close>, \<^verbatim>\<open>lost\<close> and \<^verbatim>\<open>recovered\<close> (here with the
  prefix \<open>rf_\<close>), the counters as the \<^verbatim>\<open>uint64_t\<close> values that \<^verbatim>\<open>+=\<close> adds.
\<close>

datatype rist_stats_type = RIST_STATS_SENDER_PEER | RIST_STATS_RECEIVER_FLOW

record rist_stats =
  stats_json :: string
  stats_type :: rist_stats_type
  rf_flow_id :: u32
  rf_received :: u64
  rf_lost :: u64
  rf_recovered :: u64

text \<open>
  \<^verbatim>\<open>struct ristreceiver_flow_cumulative_stats\<close>, its fields with the prefix \<open>cs_\<close>. The
  linked list \<^verbatim>\<open>stats_list\<close> is the list of its nodes in the order of the \<^verbatim>\<open>next\<close>
  pointers; it is empty when the tool starts.
\<close>

record ristreceiver_flow_cumulative_stats =
  cs_flow_id :: u32
  cs_received :: u64
  cs_recovered :: u64
  cs_lost :: u64

text \<open>Lines 245 to 247: the three \<^verbatim>\<open>+=\<close> on the node, each wrapping at 64 bits.\<close>

definition stats_accumulate ::
    "rist_stats \<Rightarrow> ristreceiver_flow_cumulative_stats \<Rightarrow> ristreceiver_flow_cumulative_stats" where
  "stats_accumulate c n =
     n\<lparr>cs_received := cs_received n + rf_received c,
       cs_lost := cs_lost n + rf_lost c,
       cs_recovered := cs_recovered n + rf_recovered c\<rparr>"

text \<open>
  Lines 233 to 247: the walk to the first node of the container's flow, a new zeroed
  node linked at the end when there is none (\<^verbatim>\<open>calloc\<close> is taken to succeed; the source
  does not test it), and the additions. The result is the list and the node \<^verbatim>\<open>stats\<close>
  points to after them.
\<close>

fun stats_walk ::
    "rist_stats \<Rightarrow> ristreceiver_flow_cumulative_stats list
       \<Rightarrow> ristreceiver_flow_cumulative_stats list \<times> ristreceiver_flow_cumulative_stats" where
  "stats_walk c [] =
     (let n = stats_accumulate c
                \<lparr>cs_flow_id = rf_flow_id c, cs_received = 0, cs_recovered = 0, cs_lost = 0\<rparr>
      in ([n], n))"
| "stats_walk c (n # ns) =
     (if cs_flow_id n \<noteq> rf_flow_id c
      then (case stats_walk c ns of (ns', m) \<Rightarrow> (n # ns', m))
      else (let n' = stats_accumulate c n in (n' # ns, n')))"

definition cumulative_json :: "ristreceiver_flow_cumulative_stats \<Rightarrow> string" where
  "cumulative_json n =
     ''{'' @ [CHR 0x22] @ ''flow_cumulative_stats'' @ [CHR 0x22] @ '':{''
       @ [CHR 0x22] @ ''flow_id'' @ [CHR 0x22] @ '':'' @ show_nat (unat (cs_flow_id n)) @ '',''
       @ [CHR 0x22] @ ''received'' @ [CHR 0x22] @ '':'' @ show_nat (unat (cs_received n)) @ '',''
       @ [CHR 0x22] @ ''recovered'' @ [CHR 0x22] @ '':'' @ show_nat (unat (cs_recovered n)) @ '',''
       @ [CHR 0x22] @ ''lost'' @ [CHR 0x22] @ '':'' @ show_nat (unat (cs_lost n)) @ ''}}''
       @ [CHR 0x0A]"

text \<open>
  \<^verbatim>\<open>cb_stats\<close>: the return value, the lines logged and the list after the call.
  \<^verbatim>\<open>rist_stats_free\<close> only releases memory.
\<close>

definition cb_stats ::
    "rist_stats \<Rightarrow> ristreceiver_flow_cumulative_stats list
       \<Rightarrow> c_int \<times> tool_event list \<times> ristreceiver_flow_cumulative_stats list" where
  "cb_stats c stats_list =
     (if stats_type c = RIST_STATS_RECEIVER_FLOW
      then (case stats_walk c stats_list of
              (stats_list', n) \<Rightarrow>
                (0, [Rist_log RIST_LOG_INFO (stats_json c @ [CHR 0x0A]),
                     Rist_log RIST_LOG_INFO (cumulative_json n)], stats_list'))
      else (0, [Rist_log RIST_LOG_INFO (stats_json c @ [CHR 0x0A])], stats_list))"

text \<open>The library calling \<^verbatim>\<open>cb_stats\<close> with one container after the other.\<close>

fun cb_stats_run ::
    "rist_stats list \<Rightarrow> ristreceiver_flow_cumulative_stats list
       \<Rightarrow> ristreceiver_flow_cumulative_stats list" where
  "cb_stats_run [] stats_list = stats_list"
| "cb_stats_run (c # cs) stats_list = cb_stats_run cs (snd (snd (cb_stats c stats_list)))"

text \<open>
  The sum, in 64-bit arithmetic, of one interval counter over the receiver-flow
  containers reported for the flow \<open>f\<close>; and the counter the list holds for \<open>f\<close>, 0
  when it has no node for it.
\<close>

definition interval_total :: "(rist_stats \<Rightarrow> u64) \<Rightarrow> u32 \<Rightarrow> rist_stats list \<Rightarrow> u64" where
  "interval_total field f reports =
     sum_list (map field
       (filter (\<lambda>c. stats_type c = RIST_STATS_RECEIVER_FLOW \<and> rf_flow_id c = f) reports))"

text \<open>The same sum taken over the natural numbers, where nothing wraps.\<close>

definition interval_total_nat :: "(rist_stats \<Rightarrow> u64) \<Rightarrow> u32 \<Rightarrow> rist_stats list \<Rightarrow> nat" where
  "interval_total_nat field f reports =
     sum_list (map (\<lambda>c. unat (field c))
       (filter (\<lambda>c. stats_type c = RIST_STATS_RECEIVER_FLOW \<and> rf_flow_id c = f) reports))"

definition counter_of ::
    "(ristreceiver_flow_cumulative_stats \<Rightarrow> u64) \<Rightarrow> u32
       \<Rightarrow> ristreceiver_flow_cumulative_stats list \<Rightarrow> u64" where
  "counter_of field f stats_list =
     (case find (\<lambda>n. cs_flow_id n = f) stats_list of None \<Rightarrow> 0 | Some n \<Rightarrow> field n)"

text \<open>Four containers: two intervals of the flow 7, one of the flow 9, one sender report.\<close>

definition example_reports :: "rist_stats list" where
  "example_reports =
     [\<lparr>stats_json = ''{}'', stats_type = RIST_STATS_RECEIVER_FLOW, rf_flow_id = 7,
        rf_received = 10, rf_lost = 1, rf_recovered = 2\<rparr>,
      \<lparr>stats_json = ''{}'', stats_type = RIST_STATS_RECEIVER_FLOW, rf_flow_id = 9,
        rf_received = 4, rf_lost = 0, rf_recovered = 0\<rparr>,
      \<lparr>stats_json = ''{}'', stats_type = RIST_STATS_SENDER_PEER, rf_flow_id = 7,
        rf_received = 100, rf_lost = 100, rf_recovered = 100\<rparr>,
      \<lparr>stats_json = ''{}'', stats_type = RIST_STATS_RECEIVER_FLOW, rf_flow_id = 7,
        rf_received = 5, rf_lost = 0, rf_recovered = 1\<rparr>]"

section \<open>The interface of \<^verbatim>\<open>librist.h\<close>, modelled from the specification\<close>

text \<open>
  \<^verbatim>\<open>librist.h\<close> declares \<^verbatim>\<open>rist_sender_create\<close>, \<^verbatim>\<open>rist_sender_flow_id_get\<close>,
  \<^verbatim>\<open>rist_sender_start\<close>, \<^verbatim>\<open>rist_receiver_start\<close>, \<^verbatim>\<open>rist_sender_data_write\<close> and
  \<^verbatim>\<open>rist_receiver_data_read\<close>; the files of the library that implement them are not among
  these sources. The definitions of this section follow the words of the specification
  and the comments of the header, and what is proved of them is proved of those words only.
\<close>

text \<open>
  Modelled from the spec: the error kinds of its section 7, which the missing
  implementation returns (the header only says 0 and \<open>-1\<close>).
\<close>

datatype rist_error =
  InvalidConfig | WouldBlock | TimedOut | MalformedPacket | DecryptFailed | PeerDead
| RingFull | Unauthorized | NotStarted | AlreadyStarted | Fatal

text \<open>
  Modelled from the spec: the sender context behind the missing \<^verbatim>\<open>struct rist_sender\<close>,
  with what the properties below speak of: the profile and log level given at creation, the flow
  identity, the next sequence number of the flow ("32-bit modular"), and whether the
  sender has been started.
\<close>

record rist_sender =
  snd_profile :: c_int
  snd_flow_id :: u32
  snd_log_level :: c_int
  snd_next_seq :: u32
  snd_started :: bool

text \<open>
  Modelled from the spec: the missing \<^verbatim>\<open>rist_sender_create\<close>. "The source tolerates
  \<open>flow_id = 0\<close> as 'assign one'", and the header: "use 0 to delegate creation of flow_id
  to lib". \<open>assigned\<close> is the identity the library picks. "Configuration errors are
  returned synchronously from the create/start call": the spec does not say which
  arguments are in error, so the test is the parameter \<open>accepted\<close>. The first sequence
  number is 0, as in the scenario S1.
\<close>

definition rist_sender_create ::
    "(c_int \<Rightarrow> c_int \<Rightarrow> bool) \<Rightarrow> u32 \<Rightarrow> c_int \<Rightarrow> u32 \<Rightarrow> c_int \<Rightarrow> rist_error + rist_sender" where
  "rist_sender_create accepted assigned profile fid log_level =
     (if \<not> accepted profile log_level then Inl InvalidConfig
      else Inr \<lparr>snd_profile = profile,
                snd_flow_id = (if fid = 0 then assigned else fid),
                snd_log_level = log_level,
                snd_next_seq = 0,
                snd_started = False\<rparr>)"

text \<open>
  Modelled from the spec: the missing \<^verbatim>\<open>rist_sender_flow_id_get\<close>, "retrieve the current
  flow_id value", on a context that exists: the return value 0 and the value stored
  through the pointer.
\<close>

definition rist_sender_flow_id_get :: "rist_sender \<Rightarrow> c_int \<times> u32" where
  "rist_sender_flow_id_get ctx = (0, snd_flow_id ctx)"

text \<open>
  Modelled from the spec: the missing \<^verbatim>\<open>rist_sender_start\<close>. "start returns one of {ok,
  InvalidConfig, AlreadyStarted}", and configuration errors "leave no side effects".
  Which configurations are in error is the parameter \<open>config_ok\<close>. The result is the
  outcome and the context after the call.
\<close>

definition rist_sender_start ::
    "(rist_sender \<Rightarrow> bool) \<Rightarrow> rist_sender \<Rightarrow> (rist_error + unit) \<times> rist_sender" where
  "rist_sender_start config_ok ctx =
     (if snd_started ctx then (Inl AlreadyStarted, ctx)
      else if \<not> config_ok ctx then (Inl InvalidConfig, ctx)
      else (Inr (), ctx\<lparr>snd_started := True\<rparr>))"

text \<open>
  Modelled from the spec: the packet the missing \<^verbatim>\<open>rist_sender_data_write\<close> hands to the
  peers, with the fields the framer stamps ("sequence number, NTP timestamp, flow_id,
  virtual ports").
\<close>

record rist_packet =
  pkt_seq :: u32
  pkt_flow_id :: u32
  pkt_ts_ntp :: u64
  pkt_virt_src_port :: u16
  pkt_virt_dst_port :: u16
  pkt_payload :: "u8 list"

text \<open>
  Modelled from the spec: the missing \<^verbatim>\<open>rist_sender_data_write\<close>, the spec's
  \<open>enqueue(data_block)\<close>: it "stamps sequence = next_seq++, fills flow_id/timestamps if
  zero", and "fails with WouldBlock if the pacer's token bucket is empty and backpressure
  is in effect"; it returns the bytes written. The data flow of the send side puts the
  framer first ("application submits a data block", then "framer stamps sequence number,
  NTP timestamp, flow_id, virtual ports", and only then, after compression and
  encryption, the "per-peer output pacer"): every submitted block is stamped and takes
  its number, and the pacer refuses or transmits the stamped packet. \<open>now\<close> is the NTP
  time of the call and \<open>blocked\<close> the state of the pacer. The result is the outcome of
  the call with the packet the framer made, and the context after the call. The
  serialisation, the transmission to the peers and their retransmit rings are left out.
  (The header says of the block's \<open>flow_id\<close> that \<^verbatim>\<open>rist_sender_data_write\<close> does not
  use it; the spec's words and the header agree on a block whose \<open>flow_id\<close> is 0, which
  is the case the property below is about.)
\<close>

definition rist_sender_data_write ::
    "u64 \<Rightarrow> bool \<Rightarrow> rist_sender \<Rightarrow> rist_data_block
       \<Rightarrow> ((rist_error + nat) \<times> rist_packet) \<times> rist_sender" where
  "rist_sender_data_write now blocked ctx b =
     (let pkt = \<lparr>pkt_seq = snd_next_seq ctx,
                 pkt_flow_id = (if flow_id b = 0 then snd_flow_id ctx else flow_id b),
                 pkt_ts_ntp = (if ts_ntp b = 0 then now else ts_ntp b),
                 pkt_virt_src_port = virt_src_port b,
                 pkt_virt_dst_port = virt_dst_port b,
                 pkt_payload = payload b\<rparr>
      in ((if blocked then Inl WouldBlock else Inr (length (payload b)), pkt),
          ctx\<lparr>snd_next_seq := snd_next_seq ctx + 1\<rparr>))"

text \<open>
  An application that submits one block after the other, each call with its time and
  the state of the pacer: for every call, in order, its outcome and the packet the
  framer made of its block; and the context after the last call.
\<close>

fun data_write_all ::
    "(u64 \<times> bool \<times> rist_data_block) list \<Rightarrow> rist_sender
       \<Rightarrow> ((rist_error + nat) \<times> rist_packet) list \<times> rist_sender" where
  "data_write_all [] ctx = ([], ctx)"
| "data_write_all ((now, blocked, b) # calls) ctx =
     (case rist_sender_data_write now blocked ctx b of
        (r, ctx') \<Rightarrow>
          (case data_write_all calls ctx' of (rs, ctx'') \<Rightarrow> (r # rs, ctx'')))"

text \<open>
  Modelled from the spec: the receiver context behind the missing
  \<^verbatim>\<open>struct rist_receiver\<close>: the profile and log level given at creation, whether the
  receiver has been started, and the "application-facing FIFO" of the blocks the
  release loop has delivered and the application has not read yet.
\<close>

record rist_receiver =
  rcv_profile :: c_int
  rcv_log_level :: c_int
  rcv_started :: bool
  rcv_fifo :: "rist_data_block list"

text \<open>
  Modelled from the spec: the missing \<^verbatim>\<open>rist_receiver_start\<close>, as \<^verbatim>\<open>rist_sender_start\<close>.
\<close>

definition rist_receiver_start ::
    "(rist_receiver \<Rightarrow> bool) \<Rightarrow> rist_receiver \<Rightarrow> (rist_error + unit) \<times> rist_receiver" where
  "rist_receiver_start config_ok ctx =
     (if rcv_started ctx then (Inl AlreadyStarted, ctx)
      else if \<not> config_ok ctx then (Inl InvalidConfig, ctx)
      else (Inr (), ctx\<lparr>rcv_started := True\<rparr>))"

text \<open>
  Modelled from the spec: the wait of the missing \<^verbatim>\<open>rist_receiver_data_read\<close>, "blocking
  application reads with a timeout". \<open>t\<close> is the time left, in milliseconds; the
  \<open>k\<close>-th element of \<open>arrivals\<close> is what the release loop puts into the FIFO during
  the \<open>k\<close>-th millisecond of the wait (nothing once the list is used up). The read
  takes the block at the head of the FIFO as soon as there is one; "\<open>data_read\<close> with
  timeout returns \<open>TimedOut\<close> on expiry".
\<close>

fun data_read_wait ::
    "rist_data_block list list \<Rightarrow> nat \<Rightarrow> rist_data_block list
       \<Rightarrow> (rist_error + rist_data_block) \<times> rist_data_block list" where
  "data_read_wait arrivals t (b # fifo) = (Inr b, fifo)"
| "data_read_wait arrivals 0 [] = (Inl TimedOut, [])"
| "data_read_wait [] (Suc t) [] = data_read_wait [] t []"
| "data_read_wait (a # arrivals) (Suc t) [] = data_read_wait arrivals t a"

text \<open>
  Modelled from the spec: the missing \<^verbatim>\<open>rist_receiver_data_read\<close>: "read returns {ok,
  TimedOut, NotStarted}"; \<open>timeout\<close> is "how long to wait for queue data (ms), 0 for no
  wait". The result is the outcome and the context after the call.
\<close>

definition rist_receiver_data_read ::
    "rist_data_block list list \<Rightarrow> nat \<Rightarrow> rist_receiver
       \<Rightarrow> (rist_error + rist_data_block) \<times> rist_receiver" where
  "rist_receiver_data_read arrivals timeout ctx =
     (if \<not> rcv_started ctx then (Inl NotStarted, ctx)
      else (case data_read_wait arrivals timeout (rcv_fifo ctx) of
              (r, fifo') \<Rightarrow> (r, ctx\<lparr>rcv_fifo := fifo'\<rparr>)))"

text \<open>A started receiver with an empty FIFO, and a sender created with \<open>flow_id = 0\<close>.\<close>

definition example_receiver :: rist_receiver where
  "example_receiver =
     \<lparr>rcv_profile = RIST_PROFILE_MAIN, rcv_log_level = RIST_LOG_INFO, rcv_started = True,
      rcv_fifo = []\<rparr>"

definition example_sender :: rist_sender where
  "example_sender =
     \<lparr>snd_profile = RIST_PROFILE_MAIN, snd_flow_id = 0xCAFE, snd_log_level = RIST_LOG_INFO,
      snd_next_seq = 0, snd_started = False\<rparr>"

section \<open>Properties of \<^verbatim>\<open>src/log.c\<close>\<close>

lemma show_nat_example: "show_nat 1905 = ''1905''"
  by (simp add: show_nat.simps digit_char_def)

lemma set_stats_socket_state:
  "snd (snd (rist_set_stats_socket port sock s))
     = (if port \<noteq> 0 \<and> stats_socket s = 0 then s\<lparr>stats_socket := sock\<rparr> else s)"
  by (simp add: rist_set_stats_socket_def)

lemma set_stats_socket_ret:
  "fst (rist_set_stats_socket port sock s) = (if port = 0 then - 1 else 0)"
  by (simp add: rist_set_stats_socket_def)

lemma stats_socket_calls_keep:
  "stats_socket s \<noteq> 0 \<Longrightarrow> stats_socket_calls cs s = s"
  by (induction cs arbitrary: s) (auto simp: set_stats_socket_state)

lemma msg_targets:
  "map event_target (fst (msg pf fs tv sc cc level str s))
     = (if loglevel s <s level then []
        else Some (if pf = Win32 \<and> stats_fd s = - 1 then fs else stats_fd s)
               # (if 0 <s stats_socket s then [Some (stats_socket s)] else []))"
  by (simp add: msg_def Let_def)

lemma msg_silent_iff:
  "fst (msg pf fs tv sc cc level str s) = [] \<longleftrightarrow> loglevel s <s level"
  by (simp add: msg_def Let_def)

text \<open>
  C1, as the code has it. The log level, the statistics descriptor and the statistics
  socket are one state of the whole process: \<^verbatim>\<open>set_loglevel\<close>, \<^verbatim>\<open>rist_set_stats_fd\<close> and
  \<^verbatim>\<open>rist_set_stats_socket\<close> take no context, and \<^verbatim>\<open>msg\<close> only prints the two contexts it is
  given. For whichever context \<^verbatim>\<open>msg\<close> is invoked, it filters and picks its targets the
  same way; after \<^verbatim>\<open>set_loglevel l\<close> it writes exactly the levels not above \<open>l\<close>; after
  \<^verbatim>\<open>rist_set_stats_fd fd\<close> with \<open>fd > -1\<close> its \<^verbatim>\<open>write\<close> goes to \<open>fd\<close>; after
  \<^verbatim>\<open>rist_set_stats_socket\<close> has stored a positive socket it sends to that socket.
\<close>

theorem logging_state_is_global:
  "map event_target (fst (msg pf fs tv sc cc level str s))
     = map event_target (fst (msg pf fs tv sc' cc' level str' s)) \<and>
   (fst (msg pf fs tv sc cc level str (set_loglevel l s)) = [] \<longleftrightarrow> l <s level) \<and>
   (- 1 <s fd \<and> \<not> loglevel s <s level \<longrightarrow>
      hd (map event_target
            (fst (msg pf fs tv sc cc level str (snd (snd (rist_set_stats_fd fd s)))))) = Some fd) \<and>
   (port \<noteq> 0 \<and> stats_socket s = 0 \<and> 0 <s sock \<and> \<not> loglevel s <s level \<longrightarrow>
      Some sock \<in> set (map event_target
            (fst (msg pf fs tv sc cc level str (snd (snd (rist_set_stats_socket port sock s)))))))"
  apply (simp only: msg_targets)
  apply (auto simp: set_loglevel_def rist_set_stats_fd_def set_stats_socket_state msg_def Let_def)
  done

theorem logging_state_is_global_witness:
  "fst (msg Unix 2 \<lparr>tv_sec = 0, tv_usec = 0\<rparr> 2 0 RIST_LOG_DEBUG ''x''
          (set_loglevel RIST_LOG_DEBUG (log_init Unix))) \<noteq> [] \<and>
   hd (map event_target (fst (msg Unix 2 \<lparr>tv_sec = 0, tv_usec = 0\<rparr> 2 0 RIST_LOG_WARN ''x''
          (snd (snd (rist_set_stats_fd 7 (log_init Unix))))))) = Some 7 \<and>
   Some 9 \<in> set (map event_target (fst (msg Unix 2 \<lparr>tv_sec = 0, tv_usec = 0\<rparr> 2 0 RIST_LOG_WARN ''x''
          (snd (snd (rist_set_stats_socket 5000 9 (log_init Unix)))))))"
  using logging_state_is_global [of Unix 2 "\<lparr>tv_sec = 0, tv_usec = 0\<rparr>" 2 0 RIST_LOG_DEBUG "''x''"
      "log_init Unix" 2 0 "''x''" RIST_LOG_DEBUG 7 5000 9]
    logging_state_is_global [of Unix 2 "\<lparr>tv_sec = 0, tv_usec = 0\<rparr>" 2 0 RIST_LOG_WARN "''x''"
      "log_init Unix" 2 0 "''x''" RIST_LOG_DEBUG 7 5000 9]
  by (simp add: log_init_def RIST_LOG_DEBUG_def RIST_LOG_WARN_def word_sless_alt)

text \<open>
  C1 as stated fails. A message of level \<^verbatim>\<open>RIST_LOG_DEBUG\<close> for the context 2 is
  dropped in the initial state and written once some other caller has run
  \<^verbatim>\<open>set_loglevel(RIST_LOG_DEBUG)\<close>; a message for the context 2 goes to descriptor 2 in the
  initial state, and to descriptor 7 and socket 9 once some other caller has run
  \<^verbatim>\<open>rist_set_stats_fd(7)\<close> and \<^verbatim>\<open>rist_set_stats_socket(5000)\<close>.
\<close>

theorem logging_per_context_counterexample:
  "fst (msg Unix 2 \<lparr>tv_sec = 0, tv_usec = 0\<rparr> 2 0 RIST_LOG_DEBUG ''x'' (log_init Unix)) = [] \<and>
   fst (msg Unix 2 \<lparr>tv_sec = 0, tv_usec = 0\<rparr> 2 0 RIST_LOG_DEBUG ''x''
          (set_loglevel RIST_LOG_DEBUG (log_init Unix))) \<noteq> [] \<and>
   map event_target (fst (msg Unix 2 \<lparr>tv_sec = 0, tv_usec = 0\<rparr> 2 0 RIST_LOG_WARN ''x'' (log_init Unix)))
     = [Some 2] \<and>
   map event_target (fst (msg Unix 2 \<lparr>tv_sec = 0, tv_usec = 0\<rparr> 2 0 RIST_LOG_WARN ''x''
          (snd (snd (rist_set_stats_socket 5000 9 (snd (snd (rist_set_stats_fd 7 (log_init Unix)))))))))
     = [Some 7, Some 9]"
  by (simp add: msg_targets msg_silent_iff set_loglevel_def rist_set_stats_fd_def
       set_stats_socket_state log_init_def RIST_LOG_DEBUG_def RIST_LOG_WARN_def STDERR_FILENO_def word_sless_alt)

text \<open>
  C8, as the code has it. The initial log level is \<^verbatim>\<open>RIST_LOG_WARN\<close>. A call of \<^verbatim>\<open>msg\<close> with
  a level strictly above the log level writes nothing, neither to the statistics
  descriptor nor to the statistics socket, and leaves the log level and the socket as
  they were. It leaves the descriptor as it was too, but for one case: compiled for
  \<^verbatim>\<open>_WIN32\<close>, \<^verbatim>\<open>msg\<close> first replaces a descriptor of \<open>-1\<close> by \<^verbatim>\<open>_fileno(stderr)\<close>, before it
  tests the level.
\<close>

theorem msg_above_loglevel:
  "loglevel (log_init pf) = RIST_LOG_WARN \<and>
   (loglevel s <s level \<longrightarrow>
      fst (msg pf fs tv a b level str s) = [] \<and>
      snd (msg pf fs tv a b level str s)
        = (if pf = Win32 \<and> stats_fd s = - 1 then s\<lparr>stats_fd := fs\<rparr> else s) \<and>
      loglevel (snd (msg pf fs tv a b level str s)) = loglevel s \<and>
      stats_socket (snd (msg pf fs tv a b level str s)) = stats_socket s \<and>
      (pf \<noteq> Win32 \<longrightarrow> snd (msg pf fs tv a b level str s) = s))"
  by (simp add: msg_def Let_def log_init_def)

theorem msg_above_loglevel_witness:
  "fst (msg Unix 2 \<lparr>tv_sec = 0, tv_usec = 0\<rparr> 0 0 RIST_LOG_DEBUG ''x'' (log_init Unix)) = [] \<and>
   snd (msg Unix 2 \<lparr>tv_sec = 0, tv_usec = 0\<rparr> 0 0 RIST_LOG_DEBUG ''x'' (log_init Unix)) = log_init Unix"
  using msg_above_loglevel [of Unix "log_init Unix" RIST_LOG_DEBUG 2 "\<lparr>tv_sec = 0, tv_usec = 0\<rparr>" 0 0 "''x''"]
  by (simp add: RIST_LOG_DEBUG_def RIST_LOG_WARN_def)

text \<open>
  C8 as stated fails on a \<^verbatim>\<open>_WIN32\<close> build: there the descriptor starts at \<open>-1\<close>, and
  the first call of \<^verbatim>\<open>msg\<close>, whatever its level, stores \<^verbatim>\<open>_fileno(stderr)\<close> (here 2)
  in it. The level \<^verbatim>\<open>RIST_LOG_DEBUG\<close> is above the initial \<^verbatim>\<open>RIST_LOG_WARN\<close>, and the state
  after the call is not the state before it.
\<close>

theorem msg_win32_counterexample:
  "loglevel (log_init Win32) <s RIST_LOG_DEBUG \<and>
   snd (msg Win32 2 \<lparr>tv_sec = 0, tv_usec = 0\<rparr> 0 0 RIST_LOG_DEBUG ''x'' (log_init Win32))
     \<noteq> log_init Win32"
  by (simp add: msg_def Let_def log_init_def RIST_LOG_DEBUG_def RIST_LOG_WARN_def)

text \<open>
  C10, as the code has it. \<^verbatim>\<open>rist_set_stats_socket\<close> returns \<open>-1\<close> exactly when the port
  is 0 and 0 otherwise. It stores the descriptor of \<^verbatim>\<open>udp_Connect\<close> exactly when the port
  is not 0 and the stored socket is 0, as it is initially; every call made while the
  stored socket is not 0 leaves the whole state unchanged, whatever its port, and so does
  any sequence of such calls. \<^verbatim>\<open>rist_set_stats_fd\<close> always returns 0, and leaves the state
  unchanged when its argument is not greater than \<open>-1\<close>.
\<close>

theorem stats_socket_and_fd:
  "(fst (rist_set_stats_socket port sock s) = - 1 \<longleftrightarrow> port = 0) \<and>
   (fst (rist_set_stats_socket port sock s) = 0 \<longleftrightarrow> port \<noteq> 0) \<and>
   stats_socket (log_init pf) = 0 \<and>
   snd (snd (rist_set_stats_socket port sock s))
     = (if port \<noteq> 0 \<and> stats_socket s = 0 then s\<lparr>stats_socket := sock\<rparr> else s) \<and>
   (stats_socket s \<noteq> 0 \<longrightarrow> stats_socket_calls cs s = s) \<and>
   fst (rist_set_stats_fd fd s) = 0 \<and>
   (fd \<le>s - 1 \<longrightarrow> snd (snd (rist_set_stats_fd fd s)) = s)"
  by (auto simp: set_stats_socket_state set_stats_socket_ret stats_socket_calls_keep
       log_init_def rist_set_stats_fd_def)

theorem stats_socket_and_fd_witness:
  "stats_socket_calls [(6000, 9), (0, 3), (7000, 0)]
     (snd (snd (rist_set_stats_socket 5000 7 (log_init Unix))))
     = \<lparr>loglevel = RIST_LOG_WARN, stats_fd = STDERR_FILENO, stats_socket = 7\<rparr> \<and>
   snd (snd (rist_set_stats_fd (- 1) (log_init Unix))) = log_init Unix"
  using stats_socket_and_fd [of 5000 7 "log_init Unix" Unix "[(6000, 9), (0, 3), (7000, 0)]" "- 1"]
    stats_socket_and_fd [of 5000 7 "snd (snd (rist_set_stats_socket 5000 7 (log_init Unix)))" Unix
      "[(6000, 9), (0, 3), (7000, 0)]" "- 1"]
  by (simp add: log_init_def)

text \<open>
  C10 as stated fails where the first call's \<^verbatim>\<open>udp_Connect\<close> returns the descriptor 0:
  the unit reads a stored 0 as "no socket yet", so the later call with port 6000 connects
  again and replaces the socket of the first call.
\<close>

theorem stats_socket_zero_counterexample:
  "stats_socket (snd (snd (rist_set_stats_socket 6000 7
      (snd (snd (rist_set_stats_socket 5000 0 (log_init Unix)))))))
   \<noteq> stats_socket (snd (snd (rist_set_stats_socket 5000 0 (log_init Unix))))"
  by (simp add: rist_set_stats_socket_def log_init_def)

section \<open>Properties of the RTP header\<close>

lemma set_hdr_append:
  "length junk = 12 \<Longrightarrow>
   risttools_rtp_set_hdr (junk @ pl) t sq ts ssrc
     = [0x80, t AND 0x7f, ucast (drop_bit 8 sq), ucast (sq AND 0xff),
        ucast (drop_bit 24 ts AND 0xff), ucast (drop_bit 16 ts AND 0xff),
        ucast (drop_bit 8 ts AND 0xff), ucast (ts AND 0xff),
        ucast (drop_bit 24 ssrc AND 0xff), ucast (drop_bit 16 ssrc AND 0xff),
        ucast (drop_bit 8 ssrc AND 0xff), ucast (ssrc AND 0xff)] @ pl"
  apply (cases junk; simp)
  apply (rename_tac a1 l1, case_tac l1; simp)
  apply (rename_tac a1 l1, case_tac l1; simp)
  apply (rename_tac a1 l1, case_tac l1; simp)
  apply (rename_tac a1 l1, case_tac l1; simp)
  apply (rename_tac a1 l1, case_tac l1; simp)
  apply (rename_tac a1 l1, case_tac l1; simp)
  apply (rename_tac a1 l1, case_tac l1; simp)
  apply (rename_tac a1 l1, case_tac l1; simp)
  apply (rename_tac a1 l1, case_tac l1; simp)
  apply (rename_tac a1 l1, case_tac l1; simp)
  apply (rename_tac a1 l1, case_tac l1; simp)
  apply (simp add: risttools_rtp_set_hdr_def)
  done

lemma and_ff_take_bit: "(x :: 'a::len word) AND 0xff = take_bit 8 x"
  by (simp add: take_bit_eq_mask mask_eq_exp_minus_1)

lemma and_7f_take_bit: "(x :: 'a::len word) AND 0x7f = take_bit 7 x"
  by (simp add: take_bit_eq_mask mask_eq_exp_minus_1)

lemma be16_bytes: "be16 [ucast (drop_bit 8 sq), ucast (sq AND 0xff)] = (sq :: u16)"
  unfolding be16_def and_ff_take_bit
  apply simp
  apply (rule bit_word_eqI)
  apply (auto simp: bit_simps)
  done

lemma be32_bytes:
  "be32 [ucast (drop_bit 24 ts AND 0xff), ucast (drop_bit 16 ts AND 0xff),
        ucast (drop_bit 8 ts AND 0xff), ucast (ts AND 0xff)] = (ts :: u32)"
  unfolding be32_def and_ff_take_bit
  apply simp
  apply (rule bit_word_eqI)
  apply (auto simp: bit_simps)
  subgoal for n by (cases "16 \<le> n"; simp)
  subgoal for n by (cases "16 \<le> n"; cases "24 \<le> n"; simp)
  done

lemma first_byte:
  "rtp_version 0x80 = 2" "\<not> rtp_padding 0x80" "\<not> rtp_extension 0x80" "rtp_csrc_count 0x80 = 0"
  by (simp_all add: rtp_version_def rtp_padding_def rtp_extension_def rtp_csrc_count_def bit_simps)

lemma second_byte: "rtp_payload_type (t AND 0x7f) = t AND 0x7f" "\<not> rtp_marker (t AND 0x7f)"
  by (simp_all add: rtp_payload_type_def rtp_marker_def and_7f_take_bit bit_simps)

lemma second_byte_bound: "unat ((t :: u8) AND 0x7f) < 128"
proof -
  have "unat (t AND 0x7f) \<le> unat (0x7f :: u8)"
    by (rule word_and_le1 [THEN word_le_nat_alt [THEN iffD1]])
  then show ?thesis by simp
qed

lemma forwarded_datagram_rtp:
  "rtp cfg \<noteq> 0 \<Longrightarrow>
   forwarded_datagram cfg sqn b =
     [0x80, (if rtp_ptype cfg \<noteq> 0 then ucast (rtp_ptype cfg) else 0x21) AND 0x7f,
      ucast (drop_bit 8 (if rtp_sequence cfg \<noteq> 0 then ucast (seq b) else sqn)),
      ucast ((if rtp_sequence cfg \<noteq> 0 then ucast (seq b) else sqn) AND 0xff),
      ucast (drop_bit 24 (risttools_convertNTPtoRTP (ts_ntp b)) AND 0xff),
      ucast (drop_bit 16 (risttools_convertNTPtoRTP (ts_ntp b)) AND 0xff),
      ucast (drop_bit 8 (risttools_convertNTPtoRTP (ts_ntp b)) AND 0xff),
      ucast (risttools_convertNTPtoRTP (ts_ntp b) AND 0xff),
      ucast (drop_bit 24 (flow_id b) AND 0xff), ucast (drop_bit 16 (flow_id b) AND 0xff),
      ucast (drop_bit 8 (flow_id b) AND 0xff), ucast (flow_id b AND 0xff)] @ payload b"
  unfolding forwarded_datagram_def
  by (simp only: if_True set_hdr_append [OF length_replicate] simp_thms if_False)

lemma forwarded_datagram_header:
  assumes "rtp cfg \<noteq> 0"
  shows "rtp_header_ok cfg sqn b (forwarded_datagram cfg sqn b)"
  unfolding rtp_header_ok_def forwarded_datagram_rtp [OF assms]
  by (simp add: first_byte second_byte second_byte_bound be16_bytes be32_bytes)

lemma forwarded_datagram_suffix:
  "forwarded_datagram cfg sqn b = payload b \<or>
   length (forwarded_datagram cfg sqn b) = 12 + length (payload b)
     \<and> drop 12 (forwarded_datagram cfg sqn b) = payload b"
proof (cases "rtp cfg = 0")
  case True
  then show ?thesis by (simp add: forwarded_datagram_def)
next
  case False
  from forwarded_datagram_header [OF this, of sqn b] show ?thesis
    by (simp add: rtp_header_ok_def)
qed

section \<open>Properties of \<^verbatim>\<open>cb_recv\<close>\<close>

lemma sends_append: "sends (xs @ ys) = sends xs @ sends ys"
  by (induction xs rule: sends.induct) auto

lemma cb_recv_output_step:
  assumes "cb_recv_output profile us b i (co, evs, found) = (co', evs', found')"
  shows "mpeg co' = mpeg co" and "udp_config co' = udp_config co"
    and "j \<noteq> i \<Longrightarrow> i_seqnum co' ! j = i_seqnum co ! j"
    and "sends evs' = sends evs @
           (if output_selected profile co b i
            then [(mpeg co ! i, forwarded_datagram (the (udp_config co ! i)) (i_seqnum co ! i) b)]
            else [])"
    and "found' \<longleftrightarrow> found \<or> output_selected profile co b i"
  using assms
  by (auto simp: cb_recv_output_def output_selected_def output_opened_def forwarded_datagram_def
        Let_def sends_append split: option.splits prod.splits if_splits)

text \<open>
  The loop over any list of distinct outputs: each step reads the counter of its own
  output only, so the datagrams are those of the callback object before the loop.
\<close>

lemma cb_recv_fold:
  assumes "foldl (\<lambda>st i. cb_recv_output profile us b i st) (co, evs, found) ixs = (co', evs', found')"
    and "distinct ixs"
  shows "mpeg co' = mpeg co \<and> udp_config co' = udp_config co \<and>
         (\<forall>j. j \<notin> set ixs \<longrightarrow> i_seqnum co' ! j = i_seqnum co ! j) \<and>
         sends evs' = sends evs @
           map (\<lambda>i. (mpeg co ! i, forwarded_datagram (the (udp_config co ! i)) (i_seqnum co ! i) b))
             (filter (output_selected profile co b) ixs) \<and>
         (found' \<longleftrightarrow> found \<or> (\<exists>i\<in>set ixs. output_selected profile co b i))"
  using assms
proof (induction ixs arbitrary: co evs found)
  case Nil
  then show ?case by simp
next
  case (Cons i ixs)
  obtain co1 evs1 found1 where
    step: "cb_recv_output profile us b i (co, evs, found) = (co1, evs1, found1)"
    by (metis prod_cases3)
  note fr = cb_recv_output_step [OF step]
  from Cons.prems step have
    rest: "foldl (\<lambda>st i. cb_recv_output profile us b i st) (co1, evs1, found1) ixs = (co', evs', found')"
    by simp
  from Cons.prems have d: "distinct ixs" and ni: "i \<notin> set ixs" by simp_all
  note ih = Cons.IH [OF rest d]
  have sel: "output_selected profile co1 b = output_selected profile co b"
    by (rule ext) (simp add: output_selected_def output_opened_def fr)
  have sq: "\<And>k. k \<in> set ixs \<Longrightarrow> i_seqnum co1 ! k = i_seqnum co ! k"
    using ni by (intro fr(3)) auto
  have dg: "map (\<lambda>k. (mpeg co1 ! k, forwarded_datagram (the (udp_config co1 ! k)) (i_seqnum co1 ! k) b))
              (filter (output_selected profile co b) ixs)
          = map (\<lambda>k. (mpeg co ! k, forwarded_datagram (the (udp_config co ! k)) (i_seqnum co ! k) b))
              (filter (output_selected profile co b) ixs)"
    using sq by (intro map_cong refl) (simp add: fr)
  have ih': "mpeg co' = mpeg co1 \<and> udp_config co' = udp_config co1 \<and>
         (\<forall>j. j \<notin> set ixs \<longrightarrow> i_seqnum co' ! j = i_seqnum co1 ! j) \<and>
         sends evs' = sends evs1 @
           map (\<lambda>k. (mpeg co ! k, forwarded_datagram (the (udp_config co ! k)) (i_seqnum co ! k) b))
             (filter (output_selected profile co b) ixs) \<and>
         (found' \<longleftrightarrow> found1 \<or> (\<exists>i\<in>set ixs. output_selected profile co b i))"
    using ih unfolding sel dg .
  show ?case
    using ih' by (auto simp: fr)
qed

lemma cb_recv_sends:
  "sends (snd (snd (cb_recv profile us co b)))
     = map (\<lambda>i. (mpeg co ! i, forwarded_datagram (the (udp_config co ! i)) (i_seqnum co ! i) b))
         (filter (output_selected profile co b) [0..<MAX_OUTPUT_COUNT])"
proof -
  obtain co' evs' found' where
    f: "foldl (\<lambda>st i. cb_recv_output profile us b i st) (co, [], False) [0..<MAX_OUTPUT_COUNT]
          = (co', evs', found')"
    by (metis prod_cases3)
  from cb_recv_fold [OF f] have
    "sends evs' = map (\<lambda>i. (mpeg co ! i, forwarded_datagram (the (udp_config co ! i)) (i_seqnum co ! i) b))
         (filter (output_selected profile co b) [0..<MAX_OUTPUT_COUNT])"
    by simp
  then show ?thesis
    by (simp add: cb_recv_def f sends_append)
qed

lemma cb_recv_ret:
  "fst (cb_recv profile us co b)
     = (if \<exists>i<MAX_OUTPUT_COUNT. output_selected profile co b i then 0 else - 1)"
proof -
  obtain co' evs' found' where
    f: "foldl (\<lambda>st i. cb_recv_output profile us b i st) (co, [], False) [0..<MAX_OUTPUT_COUNT]
          = (co', evs', found')"
    by (metis prod_cases3)
  from cb_recv_fold [OF f] have "found' \<longleftrightarrow> (\<exists>i<MAX_OUTPUT_COUNT. output_selected profile co b i)"
    by auto
  then show ?thesis
    by (simp add: cb_recv_def f)
qed

lemma upt_outputs: "[0..<MAX_OUTPUT_COUNT] = [0, 1, 2, 3, 4, 5, 6, 7, 8, 9]"
  by (simp add: MAX_OUTPUT_COUNT_def upt_conv_Cons)

lemma example_outputs_wf: "callback_object_wf example_outputs"
  by (simp add: callback_object_wf_def example_outputs_def MAX_OUTPUT_COUNT_def)

lemma example_sends_main:
  "sends (snd (snd (cb_recv RIST_PROFILE_MAIN (\<lambda>fd dg. (1, 0)) example_outputs example_block)))
     = [(5, [0x80, 0x21, 0x12, 0x34, 0x00, 0x01, 0x5f, 0x90, 0x01, 0x02, 0x03, 0x04, 0x47, 0x01, 0x02])]"
  unfolding cb_recv_sends upt_outputs
  by (simp add: output_selected_def output_opened_def example_outputs_def example_block_def
      RIST_PROFILE_MAIN_def RIST_PROFILE_SIMPLE_def word_sless_alt forwarded_datagram_rtp
      risttools_convertNTPtoRTP_def)

lemma example_selected_main:
  "filter (output_selected RIST_PROFILE_MAIN example_outputs example_block) [0..<MAX_OUTPUT_COUNT] = [0]"
  unfolding upt_outputs
  by (simp add: output_selected_def output_opened_def example_outputs_def example_block_def
      RIST_PROFILE_MAIN_def RIST_PROFILE_SIMPLE_def word_sless_alt)

text \<open>
  C3. The datagrams \<^verbatim>\<open>cb_recv\<close> sends for a block correspond, one to one and in order, to
  the outputs selected for it, each sent on the socket of its output. On an output with
  \<^verbatim>\<open>rtp\<close> set the datagram is a twelve-byte RTP header and then the payload of the block:
  version 2, padding 0, extension 0, CSRC count 0, a payload type of seven bits, the
  16-bit sequence number, the 32-bit timestamp and the SSRC in network byte order, the
  SSRC being the block's \<open>flow_id\<close>. On the other outputs it is the payload alone.
\<close>

theorem rtp_header_of_forwarded_blocks:
  assumes "callback_object_wf co"
  shows "list_all2
           (\<lambda>i (fd, dg). i < MAX_OUTPUT_COUNT \<and> fd = mpeg co ! i \<and>
              (\<exists>cfg. udp_config co ! i = Some cfg \<and>
                 (if rtp cfg \<noteq> 0 then rtp_header_ok cfg (i_seqnum co ! i) b dg else dg = payload b)))
           (filter (output_selected profile co b) [0..<MAX_OUTPUT_COUNT])
           (sends (snd (snd (cb_recv profile us co b))))"
  unfolding cb_recv_sends list_all2_map2
proof (rule list_all2_same [THEN iffD2], rule ballI)
  fix i
  assume "i \<in> set (filter (output_selected profile co b) [0..<MAX_OUTPUT_COUNT])"
  then have lt: "i < MAX_OUTPUT_COUNT" and sel: "output_selected profile co b i"
    by simp_all
  from sel obtain cfg where c: "udp_config co ! i = Some cfg"
    by (auto simp: output_selected_def output_opened_def)
  have "if rtp cfg \<noteq> 0
        then rtp_header_ok cfg (i_seqnum co ! i) b (forwarded_datagram cfg (i_seqnum co ! i) b)
        else forwarded_datagram cfg (i_seqnum co ! i) b = payload b"
    by (simp add: forwarded_datagram_header) (simp add: forwarded_datagram_def)
  with lt c show "case (mpeg co ! i, forwarded_datagram (the (udp_config co ! i)) (i_seqnum co ! i) b) of
      (fd, dg) \<Rightarrow> i < MAX_OUTPUT_COUNT \<and> fd = mpeg co ! i \<and>
              (\<exists>cfg. udp_config co ! i = Some cfg \<and>
                 (if rtp cfg \<noteq> 0 then rtp_header_ok cfg (i_seqnum co ! i) b dg else dg = payload b))"
    by simp
qed

theorem rtp_header_of_forwarded_blocks_witness:
  "callback_object_wf example_outputs \<and>
   sends (snd (snd (cb_recv RIST_PROFILE_MAIN (\<lambda>fd dg. (1, 0)) example_outputs example_block)))
     = [(5, [0x80, 0x21, 0x12, 0x34, 0x00, 0x01, 0x5f, 0x90, 0x01, 0x02, 0x03, 0x04, 0x47, 0x01, 0x02])] \<and>
   rtp_header_ok \<lparr>stream_id = 0, rtp = 1, rtp_sequence = 1, rtp_ptype = 0\<rparr> 0 example_block
     [0x80, 0x21, 0x12, 0x34, 0x00, 0x01, 0x5f, 0x90, 0x01, 0x02, 0x03, 0x04, 0x47, 0x01, 0x02]"
  using rtp_header_of_forwarded_blocks [OF example_outputs_wf, of example_block RIST_PROFILE_MAIN
      "\<lambda>fd dg. (1, 0)"]
  unfolding example_sends_main example_selected_main
  by (simp add: example_outputs_wf) (simp add: example_outputs_def)

lemma example_opened:
  "filter (output_opened example_outputs) [0..<MAX_OUTPUT_COUNT] = [0, 1]"
  unfolding upt_outputs
  by (simp add: output_opened_def example_outputs_def word_sless_alt)

text \<open>
  C4. With the simple profile \<^verbatim>\<open>cb_recv\<close> sends every block once to each opened output,
  in the order of the outputs, whatever the block's \<open>virt_dst_port\<close> and whatever the
  \<open>stream_id\<close> of the outputs; each datagram is the payload of the block, behind an RTP
  header on the outputs that ask for one; the call returns 0 as soon as one output is
  opened. And \<^verbatim>\<open>main\<close> does not call \<^verbatim>\<open>rist_oob_callback_set\<close>, which is how the tool
  enables the out-of-band channel for the other profiles.
\<close>

theorem simple_profile_forwards_to_every_output:
  assumes "callback_object_wf co"
  shows "map fst (sends (snd (snd (cb_recv RIST_PROFILE_SIMPLE us co b))))
           = map (\<lambda>i. mpeg co ! i) (filter (output_opened co) [0..<MAX_OUTPUT_COUNT]) \<and>
         map fst (sends (snd (snd (cb_recv RIST_PROFILE_SIMPLE us co (b\<lparr>virt_dst_port := v\<rparr>)))))
           = map fst (sends (snd (snd (cb_recv RIST_PROFILE_SIMPLE us co b)))) \<and>
         (\<forall>(fd, dg) \<in> set (sends (snd (snd (cb_recv RIST_PROFILE_SIMPLE us co b)))).
            dg = payload b \<or> length dg = 12 + length (payload b) \<and> drop 12 dg = payload b) \<and>
         (fst (cb_recv RIST_PROFILE_SIMPLE us co b) = 0
            \<longleftrightarrow> (\<exists>i<MAX_OUTPUT_COUNT. output_opened co i)) \<and>
         Rist_oob_callback_set \<notin> set (fst (main_setup RIST_PROFILE_SIMPLE statsinterval api))"
proof -
  have sel: "\<And>b'. output_selected RIST_PROFILE_SIMPLE co b' = output_opened co"
    by (rule ext) (simp add: output_selected_def)
  have a: "\<And>b'. map fst (sends (snd (snd (cb_recv RIST_PROFILE_SIMPLE us co b'))))
           = map (\<lambda>i. mpeg co ! i) (filter (output_opened co) [0..<MAX_OUTPUT_COUNT])"
    by (simp add: cb_recv_sends sel comp_def)
  have c: "\<forall>(fd, dg) \<in> set (sends (snd (snd (cb_recv RIST_PROFILE_SIMPLE us co b)))).
            dg = payload b \<or> length dg = 12 + length (payload b) \<and> drop 12 dg = payload b"
    unfolding cb_recv_sends using forwarded_datagram_suffix by auto
  have d: "fst (cb_recv RIST_PROFILE_SIMPLE us co b) = 0
            \<longleftrightarrow> (\<exists>i<MAX_OUTPUT_COUNT. output_opened co i)"
    by (simp add: cb_recv_ret sel)
  have e: "Rist_oob_callback_set \<notin> set (fst (main_setup RIST_PROFILE_SIMPLE statsinterval api))"
    by (simp add: main_setup_def Let_def)
  from a [of b] a [of "b\<lparr>virt_dst_port := v\<rparr>"] c d e show ?thesis by simp
qed

theorem simple_profile_forwards_to_every_output_witness:
  "callback_object_wf example_outputs \<and>
   map fst (sends (snd (snd (cb_recv RIST_PROFILE_SIMPLE (\<lambda>fd dg. (1, 0)) example_outputs example_block))))
     = [5, 6] \<and>
   fst (cb_recv RIST_PROFILE_SIMPLE (\<lambda>fd dg. (1, 0)) example_outputs example_block) = 0 \<and>
   fst (main_setup RIST_PROFILE_SIMPLE 1000 (\<lambda>c. 0))
     = [Rist_receiver_create RIST_PROFILE_SIMPLE, Rist_auth_handler_set, Rist_stats_callback_set 1000]"
proof -
  note t = simple_profile_forwards_to_every_output [OF example_outputs_wf, of "\<lambda>fd dg. (1, 0)"
      example_block 0 1000 "\<lambda>c. 0"]
  have m: "map (\<lambda>i. mpeg example_outputs ! i) [0, 1] = [5, 6]"
    by (simp add: example_outputs_def)
  have "output_opened example_outputs 0"
    by (simp add: output_opened_def example_outputs_def word_sless_alt)
  moreover have "0 < MAX_OUTPUT_COUNT"
    by (simp add: MAX_OUTPUT_COUNT_def)
  ultimately have o: "\<exists>i<MAX_OUTPUT_COUNT. output_opened example_outputs i"
    by blast
  have ms: "fst (main_setup RIST_PROFILE_SIMPLE 1000 (\<lambda>c. 0))
     = [Rist_receiver_create RIST_PROFILE_SIMPLE, Rist_auth_handler_set, Rist_stats_callback_set 1000]"
    by (simp add: main_setup_def Let_def)
  from t o ms example_outputs_wf show ?thesis
    unfolding example_opened m by blast
qed

section \<open>Properties of \<^verbatim>\<open>cb_stats\<close>\<close>

lemma stats_walk_ids:
  "map cs_flow_id (fst (stats_walk c l))
     = (if rf_flow_id c \<in> set (map cs_flow_id l) then map cs_flow_id l
        else map cs_flow_id l @ [rf_flow_id c])"
  by (induction l) (auto simp: Let_def stats_accumulate_def split: prod.splits)

lemma stats_walk_distinct:
  "distinct (map cs_flow_id l) \<Longrightarrow> distinct (map cs_flow_id (fst (stats_walk c l)))"
  by (simp add: stats_walk_ids)

lemma stats_walk_id_set:
  "cs_flow_id ` set (fst (stats_walk c l)) = insert (rf_flow_id c) (cs_flow_id ` set l)"
  by (induction l) (auto simp: Let_def stats_accumulate_def split: prod.splits)

text \<open>
  Where every flow has at most one node, the walk changes the one node of the
  container's flow, or appends a node for it, and keeps every other node as it is.
\<close>

lemma stats_walk_shape:
  "distinct (map cs_flow_id l) \<Longrightarrow>
   fst (stats_walk c l)
     = (if rf_flow_id c \<in> set (map cs_flow_id l)
        then map (\<lambda>n. if cs_flow_id n = rf_flow_id c then stats_accumulate c n else n) l
        else l @ [stats_accumulate c
                    \<lparr>cs_flow_id = rf_flow_id c, cs_received = 0, cs_recovered = 0, cs_lost = 0\<rparr>])"
proof (induction l)
  case Nil
  then show ?case by (simp add: Let_def)
next
  case (Cons n ns)
  show ?case
  proof (cases "cs_flow_id n = rf_flow_id c")
    case True
    with Cons.prems have "\<forall>m\<in>set ns. cs_flow_id m \<noteq> rf_flow_id c" by force
    then have "map (\<lambda>n. if cs_flow_id n = rf_flow_id c then stats_accumulate c n else n) ns = ns"
      by (induction ns) auto
    with True show ?thesis by (simp add: Let_def)
  next
    case False
    with Cons show ?thesis by (auto split: prod.splits)
  qed
qed

lemma counter_of_walk:
  "counter_of cs_received f (fst (stats_walk c l))
     = counter_of cs_received f l + (if rf_flow_id c = f then rf_received c else 0)"
  "counter_of cs_lost f (fst (stats_walk c l))
     = counter_of cs_lost f l + (if rf_flow_id c = f then rf_lost c else 0)"
  "counter_of cs_recovered f (fst (stats_walk c l))
     = counter_of cs_recovered f l + (if rf_flow_id c = f then rf_recovered c else 0)"
  by (induction l; auto simp: counter_of_def Let_def stats_accumulate_def split: prod.splits)+

lemma cb_stats_list:
  "snd (snd (cb_stats c l))
     = (if stats_type c = RIST_STATS_RECEIVER_FLOW then fst (stats_walk c l) else l)"
  by (simp add: cb_stats_def split: prod.splits)

lemma counter_of_run:
  "counter_of cs_received f (cb_stats_run cs l)
     = counter_of cs_received f l + interval_total rf_received f cs"
  "counter_of cs_lost f (cb_stats_run cs l) = counter_of cs_lost f l + interval_total rf_lost f cs"
  "counter_of cs_recovered f (cb_stats_run cs l)
     = counter_of cs_recovered f l + interval_total rf_recovered f cs"
  by (induction cs arbitrary: l; simp add: interval_total_def cb_stats_list counter_of_walk)+

lemma ids_run:
  "cs_flow_id ` set (cb_stats_run cs l)
     = cs_flow_id ` set l
         \<union> rf_flow_id ` {c \<in> set cs. stats_type c = RIST_STATS_RECEIVER_FLOW}"
proof (induction cs arbitrary: l)
  case Nil
  then show ?case by simp
next
  case (Cons c cs)
  show ?case
    by (cases "stats_type c = RIST_STATS_RECEIVER_FLOW")
       (auto simp: Cons.IH cb_stats_list stats_walk_id_set)
qed

lemma distinct_run:
  "distinct (map cs_flow_id l) \<Longrightarrow> distinct (map cs_flow_id (cb_stats_run cs l))"
  by (induction cs arbitrary: l) (auto simp: cb_stats_list stats_walk_distinct)

lemma counter_of_member:
  "distinct (map cs_flow_id l) \<Longrightarrow> n \<in> set l \<Longrightarrow> counter_of field (cs_flow_id n) l = field n"
  by (induction l) (auto simp: counter_of_def)

lemma counter_of_Nil: "counter_of field f [] = 0"
  by (simp add: counter_of_def)

lemma unat_sum_list:
  "sum_list (map unat xs) < 2 ^ 64 \<Longrightarrow> unat (sum_list (xs :: u64 list)) = sum_list (map unat xs)"
proof (induction xs)
  case Nil
  then show ?case by simp
next
  case (Cons x xs)
  then have rest: "sum_list (map unat xs) < 2 ^ 64" by simp
  from Cons.IH [OF rest] Cons.prems have "unat x + unat (sum_list xs) < 2 ^ LENGTH(64)"
    by simp
  then have "unat (x + sum_list xs) = unat x + unat (sum_list xs)"
    by (simp only: unat_add_lem [THEN iffD1])
  with Cons.IH [OF rest] show ?case by simp
qed

lemma interval_total_unat:
  "interval_total_nat field f reports < 2 ^ 64 \<Longrightarrow>
   unat (interval_total field f reports) = interval_total_nat field f reports"
  using unat_sum_list [of "map field
       (filter (\<lambda>c. stats_type c = RIST_STATS_RECEIVER_FLOW \<and> rf_flow_id c = f) reports)"]
  by (simp add: interval_total_def interval_total_nat_def comp_def)

lemma example_run:
  "cb_stats_run example_reports []
     = [\<lparr>cs_flow_id = 7, cs_received = 15, cs_recovered = 3, cs_lost = 1\<rparr>,
        \<lparr>cs_flow_id = 9, cs_received = 4, cs_recovered = 0, cs_lost = 0\<rparr>]"
  by (simp add: example_reports_def cb_stats_def stats_accumulate_def Let_def)

text \<open>
  C9. Started from the empty list and called with any sequence of containers,
  \<^verbatim>\<open>cb_stats\<close> leaves a list with at most one node for a flow and with a node for exactly
  the flows that a receiver-flow container reported, and each node's \<open>received\<close>, \<open>lost\<close>
  and \<open>recovered\<close> is the sum of the interval values reported for its flow: the counters
  are \<^verbatim>\<open>uint64_t\<close>, so the sum is the 64-bit one, which is the sum over the natural
  numbers as long as that stays below \<open>2^64\<close>. One call, on a list
  with at most one node for a flow, keeps it so: for a receiver-flow container it adds the
  three interval values to the node of the container's flow and to no other, after
  appending a zeroed node for the flow when there is none; for any other container it
  leaves the list as it is.
\<close>

theorem cumulative_stats_per_flow:
  "distinct (map cs_flow_id (cb_stats_run reports [])) \<and>
   cs_flow_id ` set (cb_stats_run reports [])
     = rf_flow_id ` {c \<in> set reports. stats_type c = RIST_STATS_RECEIVER_FLOW} \<and>
   (\<forall>n \<in> set (cb_stats_run reports []).
      cs_received n = interval_total rf_received (cs_flow_id n) reports \<and>
      cs_lost n = interval_total rf_lost (cs_flow_id n) reports \<and>
      cs_recovered n = interval_total rf_recovered (cs_flow_id n) reports \<and>
      (interval_total_nat rf_received (cs_flow_id n) reports < 2 ^ 64 \<longrightarrow>
         unat (cs_received n) = interval_total_nat rf_received (cs_flow_id n) reports) \<and>
      (interval_total_nat rf_lost (cs_flow_id n) reports < 2 ^ 64 \<longrightarrow>
         unat (cs_lost n) = interval_total_nat rf_lost (cs_flow_id n) reports) \<and>
      (interval_total_nat rf_recovered (cs_flow_id n) reports < 2 ^ 64 \<longrightarrow>
         unat (cs_recovered n) = interval_total_nat rf_recovered (cs_flow_id n) reports)) \<and>
   (distinct (map cs_flow_id l) \<longrightarrow>
      distinct (map cs_flow_id (snd (snd (cb_stats c l)))) \<and>
      snd (snd (cb_stats c l))
        = (if stats_type c \<noteq> RIST_STATS_RECEIVER_FLOW then l
           else if rf_flow_id c \<in> set (map cs_flow_id l)
           then map (\<lambda>n. if cs_flow_id n = rf_flow_id c then stats_accumulate c n else n) l
           else l @ [stats_accumulate c
                       \<lparr>cs_flow_id = rf_flow_id c, cs_received = 0, cs_recovered = 0, cs_lost = 0\<rparr>]))"
proof -
  have d: "distinct (map cs_flow_id (cb_stats_run reports []))"
    by (rule distinct_run) simp
  have i: "cs_flow_id ` set (cb_stats_run reports [])
     = rf_flow_id ` {c \<in> set reports. stats_type c = RIST_STATS_RECEIVER_FLOW}"
    by (simp add: ids_run)
  have s: "\<forall>n \<in> set (cb_stats_run reports []).
      cs_received n = interval_total rf_received (cs_flow_id n) reports \<and>
      cs_lost n = interval_total rf_lost (cs_flow_id n) reports \<and>
      cs_recovered n = interval_total rf_recovered (cs_flow_id n) reports \<and>
      (interval_total_nat rf_received (cs_flow_id n) reports < 2 ^ 64 \<longrightarrow>
         unat (cs_received n) = interval_total_nat rf_received (cs_flow_id n) reports) \<and>
      (interval_total_nat rf_lost (cs_flow_id n) reports < 2 ^ 64 \<longrightarrow>
         unat (cs_lost n) = interval_total_nat rf_lost (cs_flow_id n) reports) \<and>
      (interval_total_nat rf_recovered (cs_flow_id n) reports < 2 ^ 64 \<longrightarrow>
         unat (cs_recovered n) = interval_total_nat rf_recovered (cs_flow_id n) reports)"
  proof
    fix n assume n: "n \<in> set (cb_stats_run reports [])"
    have w: "cs_received n = interval_total rf_received (cs_flow_id n) reports"
      "cs_lost n = interval_total rf_lost (cs_flow_id n) reports"
      "cs_recovered n = interval_total rf_recovered (cs_flow_id n) reports"
      using counter_of_member [OF d n, of cs_received] counter_of_member [OF d n, of cs_lost]
        counter_of_member [OF d n, of cs_recovered]
      by (simp_all add: counter_of_run counter_of_Nil)
    show "cs_received n = interval_total rf_received (cs_flow_id n) reports \<and>
      cs_lost n = interval_total rf_lost (cs_flow_id n) reports \<and>
      cs_recovered n = interval_total rf_recovered (cs_flow_id n) reports \<and>
      (interval_total_nat rf_received (cs_flow_id n) reports < 2 ^ 64 \<longrightarrow>
         unat (cs_received n) = interval_total_nat rf_received (cs_flow_id n) reports) \<and>
      (interval_total_nat rf_lost (cs_flow_id n) reports < 2 ^ 64 \<longrightarrow>
         unat (cs_lost n) = interval_total_nat rf_lost (cs_flow_id n) reports) \<and>
      (interval_total_nat rf_recovered (cs_flow_id n) reports < 2 ^ 64 \<longrightarrow>
         unat (cs_recovered n) = interval_total_nat rf_recovered (cs_flow_id n) reports)"
      unfolding w by (simp add: interval_total_unat)
  qed
  have st: "distinct (map cs_flow_id l) \<longrightarrow>
      distinct (map cs_flow_id (snd (snd (cb_stats c l)))) \<and>
      snd (snd (cb_stats c l))
        = (if stats_type c \<noteq> RIST_STATS_RECEIVER_FLOW then l
           else if rf_flow_id c \<in> set (map cs_flow_id l)
           then map (\<lambda>n. if cs_flow_id n = rf_flow_id c then stats_accumulate c n else n) l
           else l @ [stats_accumulate c
                       \<lparr>cs_flow_id = rf_flow_id c, cs_received = 0, cs_recovered = 0, cs_lost = 0\<rparr>])"
  proof (intro impI conjI)
    assume dl: "distinct (map cs_flow_id l)"
    show "distinct (map cs_flow_id (snd (snd (cb_stats c l))))"
      using dl stats_walk_distinct [OF dl, of c]
      by (cases "stats_type c = RIST_STATS_RECEIVER_FLOW") (simp_all add: cb_stats_list)
    show "snd (snd (cb_stats c l))
        = (if stats_type c \<noteq> RIST_STATS_RECEIVER_FLOW then l
           else if rf_flow_id c \<in> set (map cs_flow_id l)
           then map (\<lambda>n. if cs_flow_id n = rf_flow_id c then stats_accumulate c n else n) l
           else l @ [stats_accumulate c
                       \<lparr>cs_flow_id = rf_flow_id c, cs_received = 0, cs_recovered = 0, cs_lost = 0\<rparr>])"
      using stats_walk_shape [OF dl, of c]
      by (cases "stats_type c = RIST_STATS_RECEIVER_FLOW") (simp_all add: cb_stats_list)
  qed
  from d i s st show ?thesis by blast
qed

theorem cumulative_stats_per_flow_witness:
  "cb_stats_run example_reports []
     = [\<lparr>cs_flow_id = 7, cs_received = 15, cs_recovered = 3, cs_lost = 1\<rparr>,
        \<lparr>cs_flow_id = 9, cs_received = 4, cs_recovered = 0, cs_lost = 0\<rparr>] \<and>
   interval_total rf_received 7 example_reports = 15 \<and>
   interval_total rf_lost 7 example_reports = 1 \<and>
   interval_total rf_recovered 7 example_reports = 3 \<and>
   interval_total rf_received 9 example_reports = 4 \<and>
   interval_total_nat rf_received 7 example_reports = 15 \<and>
   distinct (map cs_flow_id (cb_stats_run example_reports [])) \<and>
   snd (snd (cb_stats (example_reports ! 3) (cb_stats_run (take 2 example_reports) [])))
     = [\<lparr>cs_flow_id = 7, cs_received = 15, cs_recovered = 3, cs_lost = 1\<rparr>,
        \<lparr>cs_flow_id = 9, cs_received = 4, cs_recovered = 0, cs_lost = 0\<rparr>]"
  using cumulative_stats_per_flow [of example_reports "cb_stats_run (take 2 example_reports) []"
      "example_reports ! 3"]
  unfolding example_run
  by (simp add: example_reports_def cb_stats_def stats_accumulate_def Let_def interval_total_def
       interval_total_nat_def)

section \<open>Properties of the interface as the specification words it\<close>

lemma data_read_wait_result:
  "fst (data_read_wait arrivals t fifo)
     = (case fifo @ concat (take t arrivals) of [] \<Rightarrow> Inl TimedOut | b # _ \<Rightarrow> Inr b)"
  by (induction arrivals t fifo rule: data_read_wait.induct) (auto split: list.splits)

lemma data_read_wait_timeout:
  "fst (data_read_wait arrivals t fifo) = Inl TimedOut \<Longrightarrow>
   fifo = [] \<and> snd (data_read_wait arrivals t fifo) = []"
  by (induction arrivals t fifo rule: data_read_wait.induct) auto

text \<open>
  C2, on the model of the specification's words. A read on a receiver that is not
  started returns \<open>NotStarted\<close>. On a started receiver it returns the block at the
  head of the FIFO, or, the FIFO being empty, the first block the release loop delivers
  within the timeout, whole as it was delivered; it returns \<open>TimedOut\<close> exactly when the
  FIFO is empty and nothing is delivered within the timeout. There is no other outcome,
  and an outcome without a block leaves the context as it was.
\<close>

theorem data_read_outcomes:
  "fst (rist_receiver_data_read arrivals timeout ctx)
     = (if \<not> rcv_started ctx then Inl NotStarted
        else case rcv_fifo ctx @ concat (take timeout arrivals) of
               [] \<Rightarrow> Inl TimedOut
             | b # _ \<Rightarrow> Inr b) \<and>
   (fst (rist_receiver_data_read arrivals timeout ctx) = Inl NotStarted
      \<or> fst (rist_receiver_data_read arrivals timeout ctx) = Inl TimedOut
      \<or> (\<exists>b \<in> set (rcv_fifo ctx) \<union> set (concat (take timeout arrivals)).
            fst (rist_receiver_data_read arrivals timeout ctx) = Inr b)) \<and>
   (fst (rist_receiver_data_read arrivals timeout ctx) = Inl NotStarted
      \<or> fst (rist_receiver_data_read arrivals timeout ctx) = Inl TimedOut
      \<longrightarrow> snd (rist_receiver_data_read arrivals timeout ctx) = ctx)"
proof -
  have r: "fst (rist_receiver_data_read arrivals timeout ctx)
     = (if \<not> rcv_started ctx then Inl NotStarted
        else case rcv_fifo ctx @ concat (take timeout arrivals) of
               [] \<Rightarrow> Inl TimedOut
             | b # _ \<Rightarrow> Inr b)"
    using data_read_wait_result [of arrivals timeout "rcv_fifo ctx"]
    by (simp add: rist_receiver_data_read_def split_beta)
  have m: "fst (rist_receiver_data_read arrivals timeout ctx) = Inl NotStarted
      \<or> fst (rist_receiver_data_read arrivals timeout ctx) = Inl TimedOut
      \<or> (\<exists>b \<in> set (rcv_fifo ctx) \<union> set (concat (take timeout arrivals)).
            fst (rist_receiver_data_read arrivals timeout ctx) = Inr b)"
  proof (cases "rcv_fifo ctx @ concat (take timeout arrivals)")
    case Nil
    from r have "fst (rist_receiver_data_read arrivals timeout ctx)
        = (if \<not> rcv_started ctx then Inl NotStarted else Inl TimedOut)"
      unfolding Nil by simp
    then show ?thesis
      by (cases "rcv_started ctx") (simp_all only: if_True if_False not_True_eq_False not_False_eq_True simp_thms)
  next
    case (Cons b bs)
    then have "b \<in> set (rcv_fifo ctx @ concat (take timeout arrivals))"
      by simp
    then have mem: "b \<in> set (rcv_fifo ctx) \<union> set (concat (take timeout arrivals))"
      by (simp only: set_append)
    from r have "fst (rist_receiver_data_read arrivals timeout ctx)
        = (if \<not> rcv_started ctx then Inl NotStarted else Inr b)"
      unfolding Cons by simp
    then have "fst (rist_receiver_data_read arrivals timeout ctx) = Inl NotStarted
        \<or> fst (rist_receiver_data_read arrivals timeout ctx) = Inr b"
      by (cases "rcv_started ctx") (simp_all only: if_True if_False not_True_eq_False not_False_eq_True simp_thms)
    with mem show ?thesis by blast
  qed
  have u: "fst (rist_receiver_data_read arrivals timeout ctx) = Inl NotStarted
      \<or> fst (rist_receiver_data_read arrivals timeout ctx) = Inl TimedOut
      \<longrightarrow> snd (rist_receiver_data_read arrivals timeout ctx) = ctx"
  proof (cases "rcv_started ctx")
    case False
    then show ?thesis by (simp add: rist_receiver_data_read_def)
  next
    case True
    show ?thesis
    proof
      assume a: "fst (rist_receiver_data_read arrivals timeout ctx) = Inl NotStarted
        \<or> fst (rist_receiver_data_read arrivals timeout ctx) = Inl TimedOut"
      have eq: "fst (rist_receiver_data_read arrivals timeout ctx)
          = fst (data_read_wait arrivals timeout (rcv_fifo ctx))"
        using True by (simp add: rist_receiver_data_read_def split_beta)
      have "fst (data_read_wait arrivals timeout (rcv_fifo ctx)) \<noteq> Inl NotStarted"
        by (simp add: data_read_wait_result split: list.splits)
      with a eq have "fst (data_read_wait arrivals timeout (rcv_fifo ctx)) = Inl TimedOut"
        by simp
      from data_read_wait_timeout [OF this] have f: "rcv_fifo ctx = []"
        and sn: "snd (data_read_wait arrivals timeout (rcv_fifo ctx)) = []"
        by blast+
      have "snd (rist_receiver_data_read arrivals timeout ctx) = ctx\<lparr>rcv_fifo := []\<rparr>"
        using True by (simp add: rist_receiver_data_read_def split_beta sn)
      also have "\<dots> = ctx\<lparr>rcv_fifo := rcv_fifo ctx\<rparr>"
        by (simp only: f)
      also have "\<dots> = ctx"
        by simp
      finally show "snd (rist_receiver_data_read arrivals timeout ctx) = ctx" .
    qed
  qed
  from r m u show ?thesis by blast
qed

theorem data_read_outcomes_witness:
  "fst (rist_receiver_data_read [[], [example_block]] 5 example_receiver) = Inr example_block \<and>
   fst (rist_receiver_data_read [[], [example_block]] 1 example_receiver) = Inl TimedOut \<and>
   fst (rist_receiver_data_read [[], [example_block]] 5 (example_receiver\<lparr>rcv_started := False\<rparr>))
     = Inl NotStarted"
  using data_read_outcomes [of "[[], [example_block]]" 5 example_receiver]
    data_read_outcomes [of "[[], [example_block]]" 1 example_receiver]
    data_read_outcomes [of "[[], [example_block]]" 5 "example_receiver\<lparr>rcv_started := False\<rparr>"]
  by (simp add: example_receiver_def)

text \<open>
  C5, on the model of the specification's words. A start call, of a sender or of a
  receiver, returns ok, \<open>InvalidConfig\<close> or \<open>AlreadyStarted\<close>, three outcomes that exclude
  each other; it returns ok exactly when the context was not started and its
  configuration is accepted, and then the context is started; when it returns an error
  the context after the call is the context before it.
\<close>

theorem start_outcomes:
  "fst (rist_sender_start config_ok ctx) \<in> {Inr (), Inl InvalidConfig, Inl AlreadyStarted} \<and>
   (fst (rist_sender_start config_ok ctx) = Inr () \<longleftrightarrow> \<not> snd_started ctx \<and> config_ok ctx) \<and>
   (fst (rist_sender_start config_ok ctx) = Inr ()
      \<longrightarrow> snd (rist_sender_start config_ok ctx) = ctx\<lparr>snd_started := True\<rparr>) \<and>
   (fst (rist_sender_start config_ok ctx) \<noteq> Inr ()
      \<longrightarrow> snd (rist_sender_start config_ok ctx) = ctx) \<and>
   fst (rist_receiver_start rconfig_ok rctx) \<in> {Inr (), Inl InvalidConfig, Inl AlreadyStarted} \<and>
   (fst (rist_receiver_start rconfig_ok rctx) = Inr () \<longleftrightarrow> \<not> rcv_started rctx \<and> rconfig_ok rctx) \<and>
   (fst (rist_receiver_start rconfig_ok rctx) = Inr ()
      \<longrightarrow> snd (rist_receiver_start rconfig_ok rctx) = rctx\<lparr>rcv_started := True\<rparr>) \<and>
   (fst (rist_receiver_start rconfig_ok rctx) \<noteq> Inr ()
      \<longrightarrow> snd (rist_receiver_start rconfig_ok rctx) = rctx)"
  by (simp add: rist_sender_start_def rist_receiver_start_def)

theorem start_outcomes_witness:
  "rist_sender_start (\<lambda>c. False) example_sender = (Inl InvalidConfig, example_sender) \<and>
   rist_sender_start (\<lambda>c. True) example_sender = (Inr (), example_sender\<lparr>snd_started := True\<rparr>) \<and>
   rist_receiver_start (\<lambda>c. True) example_receiver = (Inl AlreadyStarted, example_receiver)"
  using start_outcomes [of "\<lambda>c. False" example_sender "\<lambda>c. True" example_receiver]
    start_outcomes [of "\<lambda>c. True" example_sender "\<lambda>c. True" example_receiver]
  by (simp add: rist_sender_start_def rist_receiver_start_def example_sender_def
       example_receiver_def)

lemma data_write_all_seqs:
  "length (fst (data_write_all calls ctx)) = length calls \<and>
   map (\<lambda>r. pkt_seq (snd r)) (fst (data_write_all calls ctx))
     = map (\<lambda>k. snd_next_seq ctx + of_nat k) [0..<length calls] \<and>
   map fst (fst (data_write_all calls ctx))
     = map (\<lambda>c. if fst (snd c) then Inl WouldBlock else Inr (length (payload (snd (snd c))))) calls \<and>
   snd_next_seq (snd (data_write_all calls ctx)) = snd_next_seq ctx + of_nat (length calls)"
proof (induction calls arbitrary: ctx)
  case Nil
  then show ?case by simp
next
  case (Cons c calls)
  obtain now blocked b where c: "c = (now, blocked, b)" by (cases c) auto
  from c Cons.IH [of "ctx\<lparr>snd_next_seq := snd_next_seq ctx + 1\<rparr>"] show ?case
    by (simp add: rist_sender_data_write_def Let_def map_upt_Suc split_beta add.assoc del: upt_Suc)
qed

text \<open>
  C6, on the model of the specification's words. Every block submitted through
  \<^verbatim>\<open>rist_sender_data_write\<close>, whether the pacer then transmits it or refuses it with
  \<open>WouldBlock\<close>, is stamped with the current \<open>next_seq\<close>, and \<open>next_seq\<close> is exactly one
  more after the call (modulo \<open>2^32\<close>) and nothing else of the context changes; its
  \<open>flow_id\<close> is the sender's when the caller passed 0, and its \<open>ts_ntp\<close> the time of
  the call when the caller passed 0. So the packets of any sequence of calls carry
  \<open>next_seq\<close>, \<open>next_seq + 1\<close>, and so on, one number for each submitted block, and
  \<open>next_seq\<close> has advanced by the number of calls.
\<close>

theorem data_write_stamps:
  "pkt_seq (snd (fst (rist_sender_data_write now blocked ctx b))) = snd_next_seq ctx \<and>
   snd (rist_sender_data_write now blocked ctx b) = ctx\<lparr>snd_next_seq := snd_next_seq ctx + 1\<rparr> \<and>
   (flow_id b = 0 \<longrightarrow>
      pkt_flow_id (snd (fst (rist_sender_data_write now blocked ctx b))) = snd_flow_id ctx) \<and>
   (ts_ntp b = 0 \<longrightarrow>
      pkt_ts_ntp (snd (fst (rist_sender_data_write now blocked ctx b))) = now) \<and>
   pkt_payload (snd (fst (rist_sender_data_write now blocked ctx b))) = payload b \<and>
   fst (fst (rist_sender_data_write now blocked ctx b))
     = (if blocked then Inl WouldBlock else Inr (length (payload b))) \<and>
   length (fst (data_write_all calls ctx)) = length calls \<and>
   map (\<lambda>r. pkt_seq (snd r)) (fst (data_write_all calls ctx))
     = map (\<lambda>k. snd_next_seq ctx + of_nat k) [0..<length calls] \<and>
   snd_next_seq (snd (data_write_all calls ctx)) = snd_next_seq ctx + of_nat (length calls)"
  using data_write_all_seqs [of calls ctx]
  by (simp add: rist_sender_data_write_def Let_def)

theorem data_write_stamps_witness:
  "map (\<lambda>r. pkt_seq (snd r)) (fst (data_write_all
      [(5, False, example_block), (6, True, example_block), (7, False, example_block)] example_sender))
     = [0, 1, 2] \<and>
   map fst (fst (data_write_all
      [(5, False, example_block), (6, True, example_block), (7, False, example_block)] example_sender))
     = [Inr 3, Inl WouldBlock, Inr 3] \<and>
   snd_next_seq (snd (data_write_all
      [(5, False, example_block), (6, True, example_block), (7, False, example_block)] example_sender))
     = 3 \<and>
   pkt_flow_id (snd (fst (rist_sender_data_write 5 False example_sender
      (example_block\<lparr>flow_id := 0, ts_ntp := 0\<rparr>)))) = 0xCAFE \<and>
   pkt_ts_ntp (snd (fst (rist_sender_data_write 5 False example_sender
      (example_block\<lparr>flow_id := 0, ts_ntp := 0\<rparr>)))) = 5"
  using data_write_stamps [of 5 False example_sender "example_block\<lparr>flow_id := 0, ts_ntp := 0\<rparr>"
      "[(5, False, example_block), (6, True, example_block), (7, False, example_block)]"]
  by (simp add: rist_sender_data_write_def Let_def example_sender_def example_block_def)

text \<open>
  C7, on the model of the specification's words. A sender created with \<open>flow_id = 0\<close>
  has the identity the library assigned, a sender created with another \<open>flow_id\<close> has
  that one; \<^verbatim>\<open>rist_sender_flow_id_get\<close> returns it, also after the sender has been started
  and has written data.
\<close>

theorem sender_flow_id:
  "(rist_sender_create accepted assigned profile fid log_level = Inr ctx \<longrightarrow>
      rist_sender_flow_id_get ctx = (0, if fid = 0 then assigned else fid)) \<and>
   (accepted profile log_level \<longrightarrow>
      (\<exists>ctx'. rist_sender_create accepted assigned profile fid log_level = Inr ctx')) \<and>
   rist_sender_flow_id_get (snd (rist_sender_start config_ok ctx)) = rist_sender_flow_id_get ctx \<and>
   rist_sender_flow_id_get (snd (rist_sender_data_write now blocked ctx b))
     = rist_sender_flow_id_get ctx"
  by (auto simp: rist_sender_create_def rist_sender_flow_id_get_def rist_sender_start_def
       rist_sender_data_write_def Let_def)

theorem sender_flow_id_witness:
  "rist_sender_create (\<lambda>p l. True) 0xCAFE RIST_PROFILE_MAIN 0 RIST_LOG_INFO = Inr example_sender \<and>
   rist_sender_flow_id_get example_sender = (0, 0xCAFE) \<and>
   (\<exists>ctx. rist_sender_create (\<lambda>p l. True) 0xCAFE RIST_PROFILE_MAIN 77 RIST_LOG_INFO = Inr ctx
      \<and> rist_sender_flow_id_get ctx = (0, 77))"
  using sender_flow_id [of "\<lambda>p l. True" "0xCAFE" RIST_PROFILE_MAIN 0 RIST_LOG_INFO example_sender]
    sender_flow_id [of "\<lambda>p l. True" "0xCAFE" RIST_PROFILE_MAIN 77 RIST_LOG_INFO
      "example_sender\<lparr>snd_flow_id := 77\<rparr>"]
  by (simp add: rist_sender_create_def example_sender_def)

end
